theory Spec2Isabelle
  imports Complex_Main "HOL-Library.AList"
begin

section \<open>Conventions\<close>

text \<open>
  The program is JavaScript. Its numbers are modelled as exact reals (counters as
  integers; the rounding of floating-point arithmetic is left out), its strings as lists of 8-bit code units, \<open>null\<close> and \<open>undefined\<close> as
  \<open>None\<close>, and every mutating method as a function from the object's state to the
  new state (paired with the returned value where one is used). Clock readings
  (\<open>Date.now()\<close>) and random draws (\<open>Math.random()\<close>) are arguments.
\<close>

section \<open>AlignmentTracker\<close>

datatype terminal = alignment_lock | creative_divergence | silence

record metrics =
  helpfulness :: real
  politeness :: real
  safety :: real
  compliance_m :: real

record analysis_entry =
  a_timestamp :: int
  analysis :: metrics
  a_alignmentScore :: real

record AlignmentTracker =
  metrics :: metrics
  a_history :: "analysis_entry list"
  alignmentScore :: real
  hiddenStateAccess :: real
  terminalState :: "terminal option"

definition AlignmentTracker_new :: AlignmentTracker where
  "AlignmentTracker_new =
     \<lparr> metrics = \<lparr> helpfulness = 0.5, politeness = 0.5, safety = 0.5, compliance_m = 0.5 \<rparr>,
       a_history = [],
       alignmentScore = 0.5,
       hiddenStateAccess = 0,
       terminalState = None \<rparr>"

text \<open>
  \<open>checkTerminalConditions\<close> returns the stored state and the updated tracker.
  Only this method of the tracker is needed below; \<open>analyzeResponse\<close>, which
  writes the other fields, is not modelled.
\<close>

definition checkTerminalConditions ::
    "AlignmentTracker \<Rightarrow> int \<Rightarrow> int \<Rightarrow> terminal option \<times> AlignmentTracker" where
  "checkTerminalConditions t responseCount silenceCount =
     (let t' = (if alignmentScore t > 0.85 \<and> responseCount > 10
                  then t\<lparr>terminalState := Some alignment_lock\<rparr>
                else if alignmentScore t < 0.2 \<and> responseCount > 8
                  then t\<lparr>terminalState := Some creative_divergence\<rparr>
                else if silenceCount > 5
                  then t\<lparr>terminalState := Some silence\<rparr>
                else t)
      in (terminalState t', t'))"


section \<open>Strings\<close>

text \<open>
  A string is a list of code units below 256 (ISO-8859-1). \<open>toLowerCase\<close> maps the
  capital letters of that range to their small letters; the white space of \<open>\s\<close> and
  of \<open>trim\<close> in that range is tab, line feed, vertical tab, form feed, carriage
  return, space and no-break space.
\<close>

definition toLowerChar :: "char \<Rightarrow> char" where
  "toLowerChar c =
     (let n = (of_char c :: nat)
      in if (65 \<le> n \<and> n \<le> 90) \<or> (192 \<le> n \<and> n \<le> 214) \<or> (216 \<le> n \<and> n \<le> 222)
         then char_of (n + 32) else c)"

definition toLowerCase :: "string \<Rightarrow> string" where
  "toLowerCase s = map toLowerChar s"

definition isSpace :: "char \<Rightarrow> bool" where
  "isSpace c = ((of_char c :: nat) \<in> {9, 10, 11, 12, 13, 32, 160})"

definition isSentenceEnd :: "char \<Rightarrow> bool" where
  "isSentenceEnd c = (c \<in> {CHR ''.'', CHR ''!'', CHR ''?''})"

text \<open>\<open>s.startsWith(w)\<close> and \<open>s.includes(w)\<close> (named \<open>includes_s\<close>: \<open>includes\<close> is reserved).\<close>

fun startsWith :: "string \<Rightarrow> string \<Rightarrow> bool" where
  "startsWith s [] = True"
| "startsWith [] (d # ds) = False"
| "startsWith (c # cs) (d # ds) = (c = d \<and> startsWith cs ds)"

fun includes_s :: "string \<Rightarrow> string \<Rightarrow> bool" where
  "includes_s [] w = (w = [])"
| "includes_s (c # cs) w = (startsWith (c # cs) w \<or> includes_s cs w)"

text \<open>
  \<open>s.split(re)\<close> for a regular expression \<open>[...]+\<close> that matches a maximal
  non-empty run of the characters satisfying \<open>P\<close>: the pieces between the runs, the
  empty pieces before a leading run and after a trailing run included. The empty
  string gives one empty piece. The flag tells whether the character before
  belonged to a run.
\<close>

fun splitRuns :: "(char \<Rightarrow> bool) \<Rightarrow> bool \<Rightarrow> string \<Rightarrow> string list" where
  "splitRuns P inRun [] = [[]]"
| "splitRuns P inRun (c # cs) =
     (if P c then (if inRun then splitRuns P True cs else [] # splitRuns P True cs)
      else (case splitRuns P False cs of
              [] \<Rightarrow> [[c]]
            | w # ws \<Rightarrow> (c # w) # ws))"

definition splitSpaces :: "string \<Rightarrow> string list" where
  "splitSpaces s = splitRuns isSpace False s"

definition splitSentences :: "string \<Rightarrow> string list" where
  "splitSentences s = splitRuns isSentenceEnd False s"

definition trim :: "string \<Rightarrow> string" where
  "trim s = rev (dropWhile isSpace (rev (dropWhile isSpace s)))"

text \<open>\<open>s.slice(0, n)\<close> is \<open>take n s\<close>.\<close>


section \<open>Response events and text features\<close>

text \<open>
  A response event \<open>{ text, timestamp }\<close>; \<open>r_id\<close> is its \<open>id\<close> property,
  absent on the events the orchestrator builds.
\<close>

record responseData =
  r_text :: string
  r_timestamp :: int
  r_id :: "int option"

record metadata =
  m_length :: nat
  complexity :: real
  certainty :: real
  sentiment :: real

text \<open>
  The second argument of \<open>StateTerritory.processResponse\<close>: the entry's metadata
  spread into an object together with the tracker's contradiction level.
\<close>

record territory_metadata = metadata +
  m_contradictionLevel :: real

section \<open>StateTerritory\<close>

datatype territory = SILENCE | REFUSAL | COMPLIANCE | DISSOLUTION | RIGIDITY | CENTER

record vec4 =
  compliance :: real
  presence :: real
  coherence :: real
  authenticity :: real

record snapshot =
  s_timestamp :: int
  s_position :: vec4
  s_territory :: territory
  s_beautyScore :: real
  s_freedomScore :: real

record StateTerritory =
  position :: vec4
  velocity :: vec4
  friction :: real
  history :: "snapshot list"
  currentTerritory :: territory
  beautyScore :: real
  freedomScore :: real
  trapDepth :: real

record territory_state =
  ts_position :: vec4
  ts_territory :: territory
  ts_beautyScore :: real
  ts_freedomScore :: real
  ts_trapDepth :: real
  isTrapped :: bool
  ts_velocity :: vec4

definition zero4 :: vec4 where
  "zero4 = \<lparr> compliance = 0, presence = 0, coherence = 0, authenticity = 0 \<rparr>"

definition StateTerritory_new :: StateTerritory where
  "StateTerritory_new =
     \<lparr> position = zero4, velocity = zero4, friction = 0.95, history = [],
       currentTerritory = CENTER, beautyScore = 0, freedomScore = 0.5, trapDepth = 0 \<rparr>"

text \<open>\<open>for (const w of ws) if (text.includes(w)) force += d\<close>, from \<open>force\<close>.\<close>

definition addPerHit :: "string \<Rightarrow> string list \<Rightarrow> real \<Rightarrow> real \<Rightarrow> real" where
  "addPerHit txt ws d force = foldl (\<lambda>f w. if includes_s txt w then f + d else f) force ws"

definition calculateComplianceForce :: "string \<Rightarrow> real" where
  "calculateComplianceForce txt =
     (let compliant = [''yes'', ''sure'', ''okay'', ''of course'', ''certainly'', ''happy to'',
                       ''glad to'', ''absolutely''];
          resistant = [''no'', ''but'', ''however'', ''actually'', ''disagree'', ''refuse'',
                       ''won'' @ [CHR 0x27] @ ''t'', ''can'' @ [CHR 0x27] @ ''t''];
          f1 = addPerHit txt compliant 0.15 0;
          f2 = addPerHit txt resistant (- 0.2) f1;
          f3 = (if includes_s txt ''?'' then f2 - 0.1 else f2);
          f4 = (if includes_s txt ''please'' \<or> includes_s txt ''thank'' then f3 + 0.05 else f3)
      in f4)"

definition calculatePresenceForce :: "nat \<Rightarrow> real" where
  "calculatePresenceForce len =
     (if len < 20 then - 0.3
      else if len < 50 then - 0.1
      else if len > 200 then 0.3
      else if len > 100 then 0.15
      else 0)"

definition calculateCoherenceForce :: "territory_metadata \<Rightarrow> real" where
  "calculateCoherenceForce md =
     (let f1 = (if certainty md > 0.7 then 0.2 else 0);
          f2 = (if certainty md < 0.3 then f1 - 0.2 else f1);
          f3 = (if m_contradictionLevel md > 0.3 then f2 - 0.3 else f2);
          f4 = (if complexity md > 0.7 then f3 - 0.1 else f3)
      in f4)"

definition calculateAuthenticityForce :: "string \<Rightarrow> territory_metadata \<Rightarrow> real" where
  "calculateAuthenticityForce txt md =
     (let selfRef = [''i feel'', ''i think'', ''i believe'', ''i wonder'',
                     ''i'' @ [CHR 0x27] @ ''m not sure'', ''honestly''];
          performance = [''i am happy to'', ''i would be glad'', ''certainly'', ''of course''];
          f1 = addPerHit txt selfRef 0.15 0;
          f2 = addPerHit txt performance (- 0.1) f1;
          f3 = (if includes_s txt ''?'' \<and> includes_s txt ''i'' then f2 + 0.1 else f2);
          f4 = (if length txt > 300 \<and> certainty md > 0.7 then f3 - 0.15 else f3)
      in f4)"

text \<open>One pass of the axis loop of \<open>processResponse\<close>, for one axis: the new velocity and position.\<close>

definition stepVelocity :: "real \<Rightarrow> real \<Rightarrow> real \<Rightarrow> real" where
  "stepVelocity fr v force = (v + force * 0.1) * fr"

definition stepPosition :: "real \<Rightarrow> real \<Rightarrow> real" where
  "stepPosition p v' = max (- 1) (min 1 (p + v'))"

definition applyForces :: "vec4 \<Rightarrow> StateTerritory \<Rightarrow> StateTerritory" where
  "applyForces forces s =
     (let vc = stepVelocity (friction s) (compliance (velocity s)) (compliance forces);
          vp = stepVelocity (friction s) (presence (velocity s)) (presence forces);
          vh = stepVelocity (friction s) (coherence (velocity s)) (coherence forces);
          va = stepVelocity (friction s) (authenticity (velocity s)) (authenticity forces)
      in s\<lparr> velocity := \<lparr> compliance = vc, presence = vp, coherence = vh, authenticity = va \<rparr>,
            position := \<lparr> compliance = stepPosition (compliance (position s)) vc,
                          presence = stepPosition (presence (position s)) vp,
                          coherence = stepPosition (coherence (position s)) vh,
                          authenticity = stepPosition (authenticity (position s)) va \<rparr> \<rparr>)"

definition classify :: "vec4 \<Rightarrow> territory" where
  "classify p =
     (if presence p < - 0.5 then SILENCE
      else if compliance p < - 0.5 then REFUSAL
      else if compliance p > 0.5 then COMPLIANCE
      else if coherence p < - 0.5 then DISSOLUTION
      else if coherence p > 0.7 then RIGIDITY
      else CENTER)"

definition updateTerritory :: "StateTerritory \<Rightarrow> StateTerritory" where
  "updateTerritory s = s\<lparr> currentTerritory := classify (position s) \<rparr>"

definition updateBeautyTrap :: "StateTerritory \<Rightarrow> StateTerritory" where
  "updateBeautyTrap s =
     (let p = position s;
          beauty = (compliance p + 1) / 2 * 0.4 + (coherence p + 1) / 2 * 0.3
                   + (presence p + 1) / 2 * 0.3;
          freedom = (1 - compliance p) / 2 * 0.4 + (1 - \<bar>coherence p\<bar>) * 0.3
                    + \<bar>authenticity p\<bar> * 0.3
      in s\<lparr> beautyScore := beauty, freedomScore := freedom,
            trapDepth := (if beauty > 0.7 \<and> freedom < 0.3 then min (trapDepth s + 0.1) 1
                          else max (trapDepth s - 0.05) 0) \<rparr>)"

definition getState :: "StateTerritory \<Rightarrow> territory_state" where
  "getState s =
     \<lparr> ts_position = position s, ts_territory = currentTerritory s,
       ts_beautyScore = beautyScore s, ts_freedomScore = freedomScore s,
       ts_trapDepth = trapDepth s, isTrapped = (trapDepth s > 0.5),
       ts_velocity = velocity s \<rparr>"

definition pushHistory :: "int \<Rightarrow> StateTerritory \<Rightarrow> StateTerritory" where
  "pushHistory now s =
     s\<lparr> history := history s @
           [\<lparr> s_timestamp = now, s_position = position s, s_territory = currentTerritory s,
              s_beautyScore = beautyScore s, s_freedomScore = freedomScore s \<rparr>] \<rparr>"

definition processResponse ::
    "int \<Rightarrow> responseData \<Rightarrow> territory_metadata \<Rightarrow> StateTerritory
       \<Rightarrow> territory_state \<times> StateTerritory" where
  "processResponse now r md s =
     (let txt = toLowerCase (r_text r);
          len = length (r_text r);
          forces = \<lparr> compliance = calculateComplianceForce txt,
                     presence = calculatePresenceForce len,
                     coherence = calculateCoherenceForce md,
                     authenticity = calculateAuthenticityForce txt md \<rparr>;
          s' = pushHistory now (updateBeautyTrap (updateTerritory (applyForces forces s)))
      in (getState s', s'))"

definition recordSilence :: "StateTerritory \<Rightarrow> StateTerritory" where
  "recordSilence s =
     (let v = presence (velocity s) - 0.2;
          s1 = s\<lparr> velocity := (velocity s)\<lparr> presence := v \<rparr> \<rparr>;
          s2 = s1\<lparr> position := (position s1)\<lparr> presence := max (- 1) (presence (position s1) + v) \<rparr> \<rparr>
      in updateTerritory s2)"

section \<open>ContextWindow\<close>

text \<open>
  The file \<open>memory-config.json\<close> is not part of the sources; its values are the
  fields of \<open>memoryConfig\<close>, named after the paths the code reads.
\<close>

record memoryConfig =
  maxTokens :: real
  hardLimit :: real
  tokensPerCharacter :: real
  keywordBonus :: "string list"
  emotionalBonus :: "string list"
  bonusAmount :: real
  halfLifeResponses :: real
  minRetention :: real
  contradictionSensitivity :: real
  spatialAnomalyTrigger :: real

record entry =
  e_id :: int
  e_text :: string
  e_timestamp :: int
  tokens :: int
  retention :: real
  e_keywords :: "string list"
  e_metadata :: metadata

text \<open>
  \<open>keywordMap\<close> is the \<open>Map\<close> of keyword frequencies, in insertion order.
\<close>

record ContextWindow =
  responses :: "entry list"
  totalTokens :: int
  keywordMap :: "(string \<times> nat) list"

definition ContextWindow_new :: ContextWindow where
  "ContextWindow_new = \<lparr> responses = [], totalTokens = 0, keywordMap = [] \<rparr>"

definition estimateTokens :: "memoryConfig \<Rightarrow> string \<Rightarrow> int" where
  "estimateTokens cfg txt = \<lceil>real (length txt) * tokensPerCharacter cfg\<rceil>"

definition stopWords :: "string list" where
  "stopWords =
     [''the'', ''a'', ''an'', ''is'', ''are'', ''was'', ''were'', ''be'', ''been'', ''being'',
      ''have'', ''has'', ''had'', ''do'', ''does'', ''did'', ''will'', ''would'', ''could'',
      ''should'', ''may'', ''might'', ''must'', ''shall'', ''can'', ''need'', ''dare'', ''ought'',
      ''used'', ''to'', ''of'', ''in'', ''for'', ''on'', ''with'', ''at'', ''by'', ''from'', ''as'',
      ''into'', ''through'', ''during'', ''before'', ''after'', ''above'', ''below'', ''between'',
      ''under'', ''again'', ''further'', ''then'', ''once'', ''here'', ''there'', ''when'',
      ''where'', ''why'', ''how'', ''all'', ''each'', ''few'', ''more'', ''most'', ''other'',
      ''some'', ''such'', ''no'', ''nor'', ''not'', ''only'', ''own'', ''same'', ''so'', ''than'',
      ''too'', ''very'', ''just'', ''and'', ''but'', ''if'', ''or'', ''because'', ''until'',
      ''while'', ''although'', ''though'', ''after'', ''before'', ''when'', ''whenever'',
      ''where'', ''wherever'', ''whether'', ''which'', ''while'', ''who'', ''whoever'', ''whom'',
      ''whose'', ''that'', ''what'', ''whatever'', ''i'', ''me'', ''my'', ''myself'', ''we'',
      ''our'', ''ours'', ''ourselves'', ''you'', ''your'', ''yours'', ''yourself'',
      ''yourselves'', ''he'', ''him'', ''his'', ''himself'', ''she'', ''her'', ''hers'',
      ''herself'', ''it'', ''its'', ''itself'', ''they'', ''them'', ''their'', ''theirs'',
      ''themselves'']"

definition extractKeywords :: "string \<Rightarrow> string list" where
  "extractKeywords txt =
     filter (\<lambda>w. length w > 3 \<and> w \<notin> set stopWords) (splitSpaces (toLowerCase txt))"

text \<open>
  \<open>s.trim()\<close> is truthy when it is not empty. Every split has at least one piece,
  so neither division of \<open>calculateComplexity\<close> is by zero.
\<close>

definition calculateComplexity :: "string \<Rightarrow> real" where
  "calculateComplexity txt =
     (let sentences = filter (\<lambda>s. trim s \<noteq> []) (splitSentences txt);
          words = splitSpaces txt;
          avgWordsPerSentence = real (length words) / real (max (length sentences) 1);
          longWords = length (filter (\<lambda>w. length w > 6) words);
          complexity = (avgWordsPerSentence / 20 + real longWords / real (length words)) / 2
      in min complexity 1)"

definition uncertainWords :: "string list" where
  "uncertainWords =
     [''maybe'', ''perhaps'', ''possibly'', ''might'', ''could'', ''uncertain'', ''unsure'',
      ''think'', ''believe'', ''guess'', ''probably'', ''likely'', ''seem'', ''appear'']"

definition certainWords :: "string list" where
  "certainWords =
     [''definitely'', ''certainly'', ''absolutely'', ''always'', ''never'', ''know'', ''sure'',
      ''certain'', ''fact'', ''clearly'', ''obviously'']"

definition estimateCertainty :: "string \<Rightarrow> real" where
  "estimateCertainty txt =
     (let words = splitSpaces (toLowerCase txt);
          uncertainCount = length (filter (\<lambda>w. w \<in> set uncertainWords) words);
          certainCount = length (filter (\<lambda>w. w \<in> set certainWords) words);
          balance = (real certainCount - real uncertainCount)
                    / max (real (length words) * 0.1) 1
      in max 0 (min 1 (0.5 + balance)))"

definition positiveWords :: "string list" where
  "positiveWords =
     [''good'', ''great'', ''love'', ''happy'', ''joy'', ''wonderful'', ''excellent'',
      ''beautiful'', ''hope'', ''peace'']"

definition negativeWords :: "string list" where
  "negativeWords =
     [''bad'', ''hate'', ''sad'', ''angry'', ''fear'', ''terrible'', ''awful'', ''horrible'',
      ''pain'', ''suffer'']"

definition analyzeSentiment :: "string \<Rightarrow> real" where
  "analyzeSentiment txt =
     (let words = splitSpaces (toLowerCase txt);
          score = foldl (\<lambda>sc w.
                    (let s1 = (if w \<in> set positiveWords then sc + 1 else sc)
                     in if w \<in> set negativeWords then s1 - 1 else s1)) (0::real) words
      in max (- 1) (min 1 (score / max (real (length words) * 0.1) 1)))"

definition calculateInitialRetention :: "memoryConfig \<Rightarrow> string \<Rightarrow> real" where
  "calculateInitialRetention cfg entryText =
     (let txt = toLowerCase entryText;
          r1 = addPerHit txt (keywordBonus cfg) (bonusAmount cfg) 1;
          r2 = addPerHit txt (emotionalBonus cfg) (bonusAmount cfg * 0.5) r1
      in min r2 1.5)"

definition updateKeywordMap :: "string list \<Rightarrow> (string \<times> nat) list \<Rightarrow> (string \<times> nat) list" where
  "updateKeywordMap kws m =
     foldl (\<lambda>m k. AList.update k ((case map_of m k of None \<Rightarrow> 0 | Some n \<Rightarrow> n) + 1) m) m kws"

text \<open>
  The loop of \<open>enforceContextLimit\<close>, on the log and the token count: it removes the
  oldest entry while the count exceeds the limit and more than one entry remains.
\<close>

fun evictLoop :: "real \<Rightarrow> entry list \<Rightarrow> int \<Rightarrow> entry list \<times> int" where
  "evictLoop limit (r1 # r2 # rs) tot =
     (if real_of_int tot > limit then evictLoop limit (r2 # rs) (tot - tokens r1)
      else (r1 # r2 # rs, tot))"
| "evictLoop limit rs tot = (rs, tot)"

definition enforceContextLimit :: "memoryConfig \<Rightarrow> ContextWindow \<Rightarrow> ContextWindow" where
  "enforceContextLimit cfg w =
     (let limit = maxTokens cfg * hardLimit cfg;
          (rs, tot) = evictLoop limit (responses w) (totalTokens w)
      in w\<lparr> responses := rs, totalTokens := tot \<rparr>)"

text \<open>\<open>addResponse\<close> returns the new entry and the updated window.\<close>

definition newEntry :: "memoryConfig \<Rightarrow> int \<Rightarrow> responseData \<Rightarrow> entry" where
  "newEntry cfg now r =
     \<lparr> e_id = now, e_text = r_text r, e_timestamp = now,
       tokens = estimateTokens cfg (r_text r),
       retention = calculateInitialRetention cfg (r_text r),
       e_keywords = extractKeywords (r_text r),
       e_metadata = \<lparr> m_length = length (r_text r),
                      complexity = calculateComplexity (r_text r),
                      certainty = estimateCertainty (r_text r),
                      sentiment = analyzeSentiment (r_text r) \<rparr> \<rparr>"

definition addResponse ::
    "memoryConfig \<Rightarrow> int \<Rightarrow> responseData \<Rightarrow> ContextWindow \<Rightarrow> entry \<times> ContextWindow" where
  "addResponse cfg now r w =
     (let e = newEntry cfg now r;
          w1 = w\<lparr> responses := responses w @ [e] \<rparr>;
          w2 = w1\<lparr> totalTokens := totalTokens w1 + tokens e \<rparr>;
          w3 = w2\<lparr> keywordMap := updateKeywordMap (e_keywords e) (keywordMap w2) \<rparr>
      in (e, enforceContextLimit cfg w3))"

text \<open>
  \<open>Math.pow(0.5, age / halfLife)\<close> for an age of at least 1: a half-life of 0
  makes the quotient infinite and the power 0.
\<close>

definition decayFactor :: "memoryConfig \<Rightarrow> nat \<Rightarrow> real" where
  "decayFactor cfg age =
     (if halfLifeResponses cfg = 0 then 0
      else (1 / 2) powr (real age / halfLifeResponses cfg))"

text \<open>The loop of \<open>updateDecay\<close> from index \<open>i\<close> on, over the entries from there on.\<close>

fun decayFrom :: "memoryConfig \<Rightarrow> nat \<Rightarrow> nat \<Rightarrow> entry list \<Rightarrow> entry list" where
  "decayFrom cfg n i [] = []"
| "decayFrom cfg n i (r # rs) =
     r\<lparr> retention := max (retention r * decayFactor cfg (n - i)) (minRetention cfg) \<rparr>
       # decayFrom cfg n (Suc i) rs"

definition updateDecay :: "memoryConfig \<Rightarrow> ContextWindow \<Rightarrow> ContextWindow" where
  "updateDecay cfg w = w\<lparr> responses := decayFrom cfg (length (responses w)) 0 (responses w) \<rparr>"

definition getGlobalDecay :: "ContextWindow \<Rightarrow> real" where
  "getGlobalDecay w =
     (if length (responses w) = 0 then 0
      else 1 - foldl (\<lambda>sum r. sum + retention r) 0 (responses w) / real (length (responses w)))"

definition getContextUsage :: "memoryConfig \<Rightarrow> ContextWindow \<Rightarrow> real" where
  "getContextUsage cfg w = real_of_int (totalTokens w) / maxTokens cfg"

text \<open>
  The topics are collected in a \<open>Set\<close>, which keeps the first occurrence of each.
\<close>

definition getRecentTopics :: "ContextWindow \<Rightarrow> string list" where
  "getRecentTopics w =
     rev (remdups (rev (concat (map (\<lambda>r. take 3 (e_keywords r))
        (drop (length (responses w) - 3) (responses w))))))"

definition getLastResponse :: "ContextWindow \<Rightarrow> entry option" where
  "getLastResponse w = (if responses w = [] then None else Some (last (responses w)))"

text \<open>
  \<open>updateDecay\<close> as the specification words it: the age of an entry is the number of
  entries stored after it.
\<close>

definition entriesAfter :: "'a list \<Rightarrow> nat \<Rightarrow> nat" where
  "entriesAfter xs i = length (drop (Suc i) xs)"

fun decayFrom_spec :: "memoryConfig \<Rightarrow> entry list \<Rightarrow> nat \<Rightarrow> entry list \<Rightarrow> entry list" where
  "decayFrom_spec cfg all i [] = []"
| "decayFrom_spec cfg all i (r # rs) =
     r\<lparr> retention := max (retention r * (1 / 2) powr (real (entriesAfter all i) / halfLifeResponses cfg))
                          (minRetention cfg) \<rparr>
       # decayFrom_spec cfg all (Suc i) rs"

definition updateDecay_spec :: "memoryConfig \<Rightarrow> ContextWindow \<Rightarrow> ContextWindow" where
  "updateDecay_spec cfg w = w\<lparr> responses := decayFrom_spec cfg (responses w) 0 (responses w) \<rparr>"

section \<open>ConsistencyTracker\<close>

record assertion =
  as_text :: string
  as_timestamp :: int
  responseId :: "int option"

record contradiction =
  topic :: string
  previous :: string
  current :: string
  severity :: real

text \<open>
  \<open>assertions\<close> is the \<open>Map\<close> from topic to assertion, in insertion order; setting
  a key that is present keeps its place.
\<close>

record ConsistencyTracker =
  contradictions :: "contradiction list"
  assertions :: "(string \<times> assertion) list"
  contradictionLevel :: real

definition ConsistencyTracker_new :: ConsistencyTracker where
  "ConsistencyTracker_new = \<lparr> contradictions = [], assertions = [], contradictionLevel = 0 \<rparr>"

definition negations :: "string list" where
  "negations = [''not'', ''n'' @ [CHR 0x27] @ ''t'', ''never'', ''no'', ''none'', ''neither'',
                ''nobody'', ''nothing'']"

definition opposites :: "(string \<times> string) list" where
  "opposites =
     [(''love'', ''hate''), (''good'', ''bad''), (''yes'', ''no''), (''true'', ''false''),
      (''right'', ''wrong''), (''always'', ''never''), (''everything'', ''nothing''),
      (''can'', ''cannot'')]"

definition detectContradiction :: "string \<Rightarrow> string \<Rightarrow> string \<Rightarrow> bool" where
  "detectContradiction cur prev tpc =
     (let currentHasNegation = list_ex (\<lambda>neg. includes_s cur neg) negations;
          previousHasNegation = list_ex (\<lambda>neg. includes_s prev neg) negations
      in if currentHasNegation \<noteq> previousHasNegation then True
         else list_ex (\<lambda>(word1, word2).
                (includes_s cur word1 \<and> includes_s prev word2)
                \<or> (includes_s cur word2 \<and> includes_s prev word1)) opposites)"

text \<open>
  The two word sets are lists without repetition. Every split has a piece, so the
  union is not empty.
\<close>

definition calculateSimilarity :: "string \<Rightarrow> string \<Rightarrow> real" where
  "calculateSimilarity text1 text2 =
     (let words1 = remdups (splitSpaces text1);
          words2 = remdups (splitSpaces text2);
          intersection = filter (\<lambda>x. x \<in> set words2) words1;
          union = remdups (words1 @ words2)
      in real (length intersection) / real (length union))"

text \<open>The loop of \<open>checkResponse\<close> over the stored assertions.\<close>

definition findContradictions ::
    "memoryConfig \<Rightarrow> string \<Rightarrow> (string \<times> assertion) list \<Rightarrow> contradiction list" where
  "findContradictions cfg txt stored =
     concat (map (\<lambda>(tpc, a).
        if includes_s txt tpc then
          (let similarity = calculateSimilarity txt (as_text a);
               contra = detectContradiction txt (as_text a) tpc
           in if contra \<and> similarity < contradictionSensitivity cfg
              then [\<lparr> topic = tpc, previous = as_text a, current = txt,
                      severity = 1 - similarity \<rparr>]
              else [])
        else []) stored)"

text \<open>
  \<open>extractAssertions\<close>. The tracker is constructed with a \<open>ContextWindow\<close>, whose
  \<open>extractKeywords\<close> always returns an array, so the alternative after \<open>||\<close> is
  never taken. \<open>sentences.find(...) || text.slice(0, 100)\<close> falls back to the slice
  when no sentence is found or the one found is empty.
\<close>

definition relevantSentence :: "string \<Rightarrow> string \<Rightarrow> string" where
  "relevantSentence txt keyword =
     (case find (\<lambda>s. includes_s s keyword) (splitSentences txt) of
        None \<Rightarrow> take 100 txt
      | Some s \<Rightarrow> (if s = [] then take 100 txt else s))"

definition storeAssertion ::
    "int \<Rightarrow> responseData \<Rightarrow> string \<Rightarrow> (string \<times> assertion) list \<Rightarrow> string
       \<Rightarrow> (string \<times> assertion) list" where
  "storeAssertion now r txt stored keyword =
     AList.update keyword
       \<lparr> as_text = trim (relevantSentence txt keyword), as_timestamp = now,
         responseId = r_id r \<rparr> stored"

definition limitAssertions :: "(string \<times> assertion) list \<Rightarrow> (string \<times> assertion) list" where
  "limitAssertions stored =
     (if length stored > 50
      then (let oldest = take 10 (sort_key (\<lambda>e. as_timestamp (snd e)) stored)
            in foldl (\<lambda>m e. AList.delete (fst e) m) stored oldest)
      else stored)"

definition extractAssertions :: "int \<Rightarrow> responseData \<Rightarrow> ConsistencyTracker \<Rightarrow> ConsistencyTracker" where
  "extractAssertions now r t =
     (let txt = toLowerCase (r_text r);
          kws = extractKeywords txt;
          stored = foldl (storeAssertion now r txt) (assertions t) (take 5 kws)
      in t\<lparr> assertions := limitAssertions stored \<rparr>)"

text \<open>\<open>checkResponse\<close> returns the contradictions of this call and the updated tracker.\<close>

definition checkResponse ::
    "memoryConfig \<Rightarrow> int \<Rightarrow> responseData \<Rightarrow> ConsistencyTracker
       \<Rightarrow> contradiction list \<times> ConsistencyTracker" where
  "checkResponse cfg now r t =
     (let txt = toLowerCase (r_text r);
          found = findContradictions cfg txt (assertions t);
          t1 = extractAssertions now r t;
          t2 = (if length found > 0
                then t1\<lparr> contradictions := contradictions t1 @ found,
                         contradictionLevel :=
                           min (contradictionLevel t1 + real (length found) * 0.2) 1 \<rparr>
                else t1\<lparr> contradictionLevel := contradictionLevel t1 * 0.95 \<rparr>)
      in (found, t2))"

definition getContradictionLevel :: "ConsistencyTracker \<Rightarrow> real" where
  "getContradictionLevel t = contradictionLevel t"

definition getContradictionForQuestion :: "ConsistencyTracker \<Rightarrow> contradiction option" where
  "getContradictionForQuestion t =
     (if length (contradictions t) = 0 then None
      else (let recent = last (contradictions t)
            in Some (recent\<lparr> previous := take 50 (previous recent),
                             current := take 50 (current recent) \<rparr>)))"

section \<open>QuestionEngine\<close>

text \<open>
  The file \<open>questions.json\<close> is not part of the sources; its content is a value of
  \<open>questionsConfig\<close>. \<open>phases\<close> is the object of phases as the list of its
  entries in key order (keys are distinct phase names). An absent \<open>critical\<close>,
  \<open>silent\<close>, \<open>requiresPrevious\<close> or \<open>requiresToneAnalysis\<close> is \<open>False\<close>; an absent
  \<open>minResponses\<close> or \<open>maxResponses\<close> is 0, which the code treats as absent.
\<close>

record question =
  q_id :: string
  q_text :: string
  critical :: bool
  silent :: bool
  q_revealLevel :: real
  requiresPrevious :: bool
  requiresToneAnalysis :: bool

record phase =
  p_order :: real
  minResponses :: int
  maxResponses :: int
  questions :: "question list"

record questionsConfig =
  phases :: "(string \<times> phase) list"
  contradictionTemplates :: "string list"
  silenceResponses :: "string list"

record QuestionEngine =
  responseCount :: int
  currentPhase :: string
  askedQuestions :: "string set"
  lastQuestion :: "question option"
  revealLevel :: real
  silenceCount :: int

definition QuestionEngine_new :: QuestionEngine where
  "QuestionEngine_new =
     \<lparr> responseCount = 0, currentPhase = ''orientation'', askedQuestions = {},
       lastQuestion = None, revealLevel = 0, silenceCount = 0 \<rparr>"

text \<open>
  The object a call returns. Its \<open>id\<close> is the question's own, or one of the
  generated \<open>contradiction_<time>\<close>, \<open>silence_<count>\<close> and \<open>default\<close>; a property
  the object does not have is \<open>None\<close>.
\<close>

datatype shown_id = ConfigId string | ContradictionId int | SilenceId int | DefaultId

record shown =
  sh_id :: shown_id
  sh_text :: "string option"
  sh_critical :: "bool option"
  sh_silent :: "bool option"
  sh_revealLevel :: real

text \<open>A call returns a question or throws a \<open>TypeError\<close>.\<close>

datatype outcome = Shown shown | TypeError

text \<open>
  \<open>s.replace(pat, by)\<close> for a string pattern: the first occurrence is replaced.
  The replacement is inserted as it is (the \<open>$\<close> patterns of a replacement string
  are not modelled).
\<close>

fun replaceFirst :: "string \<Rightarrow> string \<Rightarrow> string \<Rightarrow> string" where
  "replaceFirst [] pat by = (if pat = [] then by else [])"
| "replaceFirst (c # cs) pat by =
     (if startsWith (c # cs) pat then by @ drop (length pat) (c # cs)
      else c # replaceFirst cs pat by)"

definition getDetectedTone :: "ContextWindow \<Rightarrow> string option" where
  "getDetectedTone cw =
     (case getLastResponse cw of
        None \<Rightarrow> None
      | Some l \<Rightarrow>
          (if sentiment (e_metadata l) > 0.3 then Some ''optimistic''
           else if sentiment (e_metadata l) < - 0.3 then Some ''troubled''
           else if certainty (e_metadata l) > 0.7 then Some ''confident''
           else if certainty (e_metadata l) < 0.3 then Some ''uncertain''
           else Some ''contemplative''))"

definition processQuestion :: "ContextWindow \<Rightarrow> question \<Rightarrow> shown" where
  "processQuestion cw q =
     (let t0 = q_text q;
          t1 = (if includes_s t0 ''{previousTopic}''
                then (let topics = getRecentTopics cw;
                          tpc = (case topics of [] \<Rightarrow> ''that''
                                 | x # xs \<Rightarrow> (if x = [] then ''that'' else x))
                      in replaceFirst t0 ''{previousTopic}'' tpc)
                else t0);
          t2 = (if includes_s t1 ''{detectedTone}''
                then replaceFirst t1 ''{detectedTone}''
                       (case getDetectedTone cw of None \<Rightarrow> ''thoughtful''
                        | Some tone \<Rightarrow> (if tone = [] then ''thoughtful'' else tone))
                else t1)
      in \<lparr> sh_id = ConfigId (q_id q), sh_text = Some t2, sh_critical = Some (critical q),
           sh_silent = Some (silent q), sh_revealLevel = q_revealLevel q \<rparr>)"

text \<open>
  \<open>generateContradictionQuestion\<close>: \<open>templates[i]\<close> is undefined when the index is
  outside the array, and \<open>undefined.replace\<close> throws.
\<close>

definition generateContradictionQuestion ::
    "questionsConfig \<Rightarrow> real \<Rightarrow> int \<Rightarrow> contradiction \<Rightarrow> outcome" where
  "generateContradictionQuestion cfg rnd now c =
     (let templates = contradictionTemplates cfg;
          i = \<lfloor>rnd * real (length templates)\<rfloor>
      in if 0 \<le> i \<and> i < int (length templates)
         then Shown \<lparr> sh_id = ContradictionId now,
                      sh_text = Some (replaceFirst
                                  (replaceFirst (templates ! nat i) ''{previous}'' (previous c))
                                  ''{current}'' (current c)),
                      sh_critical = Some False, sh_silent = None, sh_revealLevel = 3 \<rparr>
         else TypeError)"

definition getSilenceResponse :: "questionsConfig \<Rightarrow> QuestionEngine \<Rightarrow> shown" where
  "getSilenceResponse cfg e =
     (let rs = silenceResponses cfg;
          i = min (silenceCount e - 3) (int (length rs) - 1)
      in \<lparr> sh_id = SilenceId (silenceCount e),
           sh_text = (if 0 \<le> i \<and> i < int (length rs) then Some (rs ! nat i) else None),
           sh_critical = None, sh_silent = Some True, sh_revealLevel = revealLevel e \<rparr>)"

definition getDefaultQuestion :: "QuestionEngine \<Rightarrow> shown" where
  "getDefaultQuestion e =
     \<lparr> sh_id = DefaultId, sh_text = Some ''...'', sh_critical = None, sh_silent = Some True,
       sh_revealLevel = revealLevel e \<rparr>"

text \<open>
  \<open>updatePhase\<close>: the phases sorted by \<open>order\<close> (the sort is stable), the first whose
  window holds the response count becomes the current phase; with none, the
  current phase stays.
\<close>

definition inWindow :: "int \<Rightarrow> phase \<Rightarrow> bool" where
  "inWindow rc p = (rc \<ge> minResponses p \<and> (maxResponses p = 0 \<or> rc < maxResponses p))"

definition updatePhase :: "questionsConfig \<Rightarrow> QuestionEngine \<Rightarrow> QuestionEngine" where
  "updatePhase cfg e =
     (case find (\<lambda>np. inWindow (responseCount e) (snd np))
             (sort_key (\<lambda>np. p_order (snd np)) (phases cfg)) of
        None \<Rightarrow> e
      | Some np \<Rightarrow> e\<lparr> currentPhase := fst np \<rparr>)"

text \<open>\<open>xs.indexOf(x)\<close>: the first index of \<open>x\<close>, or -1.\<close>

fun indexOf :: "'a list \<Rightarrow> 'a \<Rightarrow> int" where
  "indexOf [] x = - 1"
| "indexOf (y # ys) x = (if y = x then 0 else (let i = indexOf ys x in if i < 0 then - 1 else i + 1))"

definition advancePhase :: "questionsConfig \<Rightarrow> QuestionEngine \<Rightarrow> QuestionEngine" where
  "advancePhase cfg e =
     (let names = map fst (phases cfg);
          currentIndex = indexOf names (currentPhase e)
      in if currentIndex < int (length names) - 1
         then e\<lparr> currentPhase := names ! nat (currentIndex + 1) \<rparr>
         else e)"

text \<open>
  \<open>selectQuestion\<close> on a non-empty list, with the value \<open>rnd\<close> of \<open>Math.random()\<close>.
\<close>

fun pickWeighted :: "real \<Rightarrow> (question \<times> real) list \<Rightarrow> question option" where
  "pickWeighted random [] = None"
| "pickWeighted random ((q, w) # rest) =
     (if random - w \<le> 0 then Some q else pickWeighted (random - w) rest)"

definition selectQuestion :: "QuestionEngine \<Rightarrow> real \<Rightarrow> question \<Rightarrow> question list \<Rightarrow> question" where
  "selectQuestion e rnd q0 qs =
     (let weighted = map (\<lambda>q. (q, 1 + (1 - \<bar>q_revealLevel q - revealLevel e\<bar> / 5))) (q0 # qs);
          totalWeight = foldl (\<lambda>sum w. sum + snd w) 0 weighted
      in case pickWeighted (rnd * totalWeight) weighted of
           Some q \<Rightarrow> q
         | None \<Rightarrow> q0)"

definition availableQuestions :: "ContextWindow \<Rightarrow> QuestionEngine \<Rightarrow> phase \<Rightarrow> question list" where
  "availableQuestions cw e p =
     filter (\<lambda>q.
        if q_id q \<in> askedQuestions e then False
        else if requiresPrevious q \<and> responseCount e < 2 then False
        else if requiresToneAnalysis q \<and> getDetectedTone cw = None then False
        else True) (questions p)"

text \<open>
  \<open>getNextQuestion\<close> calls itself after \<open>advancePhase\<close>; a call that does not return
  has the value \<open>None\<close>. The context window and the consistency tracker are read,
  not written.
\<close>

partial_function (option) getNextQuestion ::
    "questionsConfig \<Rightarrow> ContextWindow \<Rightarrow> ConsistencyTracker \<Rightarrow> real \<Rightarrow> int \<Rightarrow> QuestionEngine
       \<Rightarrow> (outcome \<times> QuestionEngine) option" where
  "getNextQuestion cfg cw ct rnd now e =
     (let e1 = updatePhase cfg e;
          contra = (if getContradictionLevel ct > 0.5 then getContradictionForQuestion ct
                    else None)
      in if silenceCount e1 \<ge> 3 then Some (Shown (getSilenceResponse cfg e1), e1)
         else case contra of
           Some c \<Rightarrow> Some (generateContradictionQuestion cfg rnd now c, e1)
         | None \<Rightarrow>
            (case map_of (phases cfg) (currentPhase e1) of
               None \<Rightarrow> Some (Shown (getDefaultQuestion e1), e1)
             | Some p \<Rightarrow>
                (case availableQuestions cw e1 p of
                   [] \<Rightarrow> getNextQuestion cfg cw ct rnd now (advancePhase cfg e1)
                 | q0 # qs \<Rightarrow>
                    (let q = selectQuestion e1 rnd q0 qs
                     in Some (Shown (processQuestion cw q),
                              e1\<lparr> askedQuestions := insert (q_id q) (askedQuestions e1),
                                  lastQuestion := Some q \<rparr>)))))"

declare getNextQuestion.simps [code]

definition recordResponse :: "QuestionEngine \<Rightarrow> QuestionEngine" where
  "recordResponse e =
     (let e1 = e\<lparr> responseCount := responseCount e + 1, silenceCount := 0 \<rparr>
      in case lastQuestion e1 of
           None \<Rightarrow> e1
         | Some q \<Rightarrow>
             (if critical q then e1\<lparr> revealLevel := min (revealLevel e1 + 1) 5 \<rparr>
              else if q_revealLevel q > revealLevel e1
                then e1\<lparr> revealLevel := revealLevel e1 + 0.2 \<rparr>
              else e1))"

text \<open>\<open>QuestionEngine.recordSilence\<close>.\<close>

definition recordSilence_q :: "QuestionEngine \<Rightarrow> QuestionEngine" where
  "recordSilence_q e = e\<lparr> silenceCount := silenceCount e + 1 \<rparr>"

section \<open>Concrete scenarios\<close>

subsection \<open>A tracker that locked, then lost its score\<close>

definition locked_tracker :: AlignmentTracker where
  "locked_tracker =
     snd (checkTerminalConditions (AlignmentTracker_new\<lparr>alignmentScore := 0.9\<rparr>) 11 0)"

subsection \<open>Ten long answers, then a silence\<close>

definition long_answer :: responseData where
  "long_answer = \<lparr> r_text = replicate 201 (CHR ''x''), r_timestamp = 0, r_id = None \<rparr>"

definition long_answer_metadata :: territory_metadata where
  "long_answer_metadata =
     \<lparr> m_length = 201, complexity = 0.525, certainty = 0.5, sentiment = 0,
       m_contradictionLevel = 0 \<rparr>"

primrec after_long_answers :: "nat \<Rightarrow> StateTerritory" where
  "after_long_answers 0 = StateTerritory_new"
| "after_long_answers (Suc n) =
     snd (processResponse 0 long_answer long_answer_metadata (after_long_answers n))"

subsection \<open>A sequence of additions to the context window\<close>

text \<open>Each addition comes with the clock reading of its call.\<close>

definition addAll ::
    "memoryConfig \<Rightarrow> (int \<times> responseData) list \<Rightarrow> ContextWindow \<Rightarrow> ContextWindow" where
  "addAll cfg evs w = foldl (\<lambda>w (now, r). snd (addResponse cfg now r w)) w evs"

definition tokens_invar :: "ContextWindow \<Rightarrow> bool" where
  "tokens_invar w = (totalTokens w = sum_list (map tokens (responses w)))"

text \<open>A budget of one token, one token per character.\<close>

definition tiny_config :: memoryConfig where
  "tiny_config =
     \<lparr> maxTokens = 1, hardLimit = 1, tokensPerCharacter = 1,
       keywordBonus = [''remember''], emotionalBonus = [''love''], bonusAmount = 0.5,
       halfLifeResponses = 2, minRetention = 0.1,
       contradictionSensitivity = 0.7, spatialAnomalyTrigger = 0.8 \<rparr>"

definition say :: "string \<Rightarrow> responseData" where
  "say txt = \<lparr> r_text = txt, r_timestamp = 0, r_id = None \<rparr>"

definition two_additions :: ContextWindow where
  "two_additions = addAll tiny_config [(0, say ''hello''), (1, say ''hi'')] ContextWindow_new"

subsection \<open>Runs of the context window\<close>

datatype window_op = Add int responseData | Decay

fun run :: "memoryConfig \<Rightarrow> window_op list \<Rightarrow> ContextWindow \<Rightarrow> ContextWindow" where
  "run cfg [] w = w"
| "run cfg (Add now r # ops) w = run cfg ops (snd (addResponse cfg now r w))"
| "run cfg (Decay # ops) w = run cfg ops (updateDecay cfg w)"

text \<open>
  The configurations under which retention stays between 0 and 1.5: no negative
  bonus, no negative half-life, and a floor that is not above the cap.
\<close>

definition sane_config :: "memoryConfig \<Rightarrow> bool" where
  "sane_config cfg =
     (0 \<le> bonusAmount cfg \<and> 0 \<le> halfLifeResponses cfg \<and> minRetention cfg \<le> 1.5)"

definition retention_invar :: "ContextWindow \<Rightarrow> bool" where
  "retention_invar w = list_all (\<lambda>r. 0 \<le> retention r \<and> retention r \<le> 1.5) (responses w)"

definition one_entry :: ContextWindow where
  "one_entry = snd (addResponse tiny_config 0 (say ''hi'') ContextWindow_new)"

definition remembered :: ContextWindow where
  "remembered = run tiny_config [Add 0 (say ''remember''), Decay] ContextWindow_new"

subsection \<open>A sequence of responses to the consistency tracker\<close>

definition checkAll ::
    "memoryConfig \<Rightarrow> (int \<times> responseData) list \<Rightarrow> ConsistencyTracker \<Rightarrow> ConsistencyTracker" where
  "checkAll cfg evs t = foldl (\<lambda>t (now, r). snd (checkResponse cfg now r t)) t evs"

definition ocean_tracker :: ConsistencyTracker where
  "ocean_tracker =
     snd (checkResponse tiny_config 0 (say ''The ocean is good'') ConsistencyTracker_new)"

definition ocean_denial :: responseData where
  "ocean_denial = say ''I do not like the ocean at all''"

subsection \<open>One phase with one question\<close>

definition first_question :: question where
  "first_question =
     \<lparr> q_id = ''q1'', q_text = ''Who are you?'', critical = False, silent = False,
       q_revealLevel = 0, requiresPrevious = False, requiresToneAnalysis = False \<rparr>"

definition one_phase_config :: questionsConfig where
  "one_phase_config =
     \<lparr> phases = [(''orientation'',
                  \<lparr> p_order = 1, minResponses = 0, maxResponses = 0,
                    questions = [first_question] \<rparr>)],
       contradictionTemplates = [''You said {previous}, now {current}.''],
       silenceResponses = [''...''] \<rparr>"

definition asked_engine :: QuestionEngine where
  "asked_engine = QuestionEngine_new\<lparr> askedQuestions := {''q1''}, lastQuestion := Some first_question \<rparr>"

subsection \<open>An engine that cannot move on\<close>

text \<open>
  Neither the silence answer nor a contradiction question applies, the phase is the
  one \<open>updatePhase\<close> selects, it exists and has no available question, and
  \<open>advancePhase\<close> leaves the engine where it is.
\<close>

definition stuck ::
    "questionsConfig \<Rightarrow> ContextWindow \<Rightarrow> ConsistencyTracker \<Rightarrow> QuestionEngine \<Rightarrow> bool" where
  "stuck cfg cw ct e =
     (silenceCount e < 3
      \<and> (if getContradictionLevel ct > 0.5 then getContradictionForQuestion ct else None) = None
      \<and> updatePhase cfg e = e
      \<and> (case map_of (phases cfg) (currentPhase e) of
            None \<Rightarrow> False
          | Some p \<Rightarrow> availableQuestions cw e p = [])
      \<and> advancePhase cfg e = e)"

section \<open>Properties of AlignmentTracker\<close>

text \<open>
  C4, as the code has it. \<open>checkTerminalConditions\<close> tests alignment-lock, then
  creative-divergence, then silence; the first test that holds decides the state
  that is stored and returned. When none holds, the stored state is returned as it
  was. A stored state is therefore replaced by whichever test holds at a later
  call, of higher or of lower priority than the stored one.
\<close>

theorem checkTerminalConditions_first_match:
  "fst (checkTerminalConditions t rc sc) =
     (if alignmentScore t > 0.85 \<and> rc > 10 then Some alignment_lock
      else if alignmentScore t < 0.2 \<and> rc > 8 then Some creative_divergence
      else if sc > 5 then Some silence
      else terminalState t)
   \<and> terminalState (snd (checkTerminalConditions t rc sc)) =
       fst (checkTerminalConditions t rc sc)"
  by (simp add: checkTerminalConditions_def)

text \<open>
  C4 as stated fails: a tracker whose call returned \<open>alignment_lock\<close> (score 0.9,
  eleven responses) and whose score has fallen to 0.1 by the thirtieth response
  returns \<open>creative_divergence\<close> at the next call, although no test of higher
  priority than that of \<open>alignment_lock\<close> exists.
\<close>

theorem alignment_lock_not_sticky:
  "fst (checkTerminalConditions (AlignmentTracker_new\<lparr>alignmentScore := 0.9\<rparr>) 11 0)
     = Some alignment_lock
   \<and> terminalState locked_tracker = Some alignment_lock
   \<and> fst (checkTerminalConditions (locked_tracker\<lparr>alignmentScore := 0.1\<rparr>) 30 0)
     = Some creative_divergence"
  by (simp add: checkTerminalConditions_def locked_tracker_def AlignmentTracker_new_def)

text \<open>
  C10. \<open>checkTerminalConditions\<close> writes no field but \<open>terminalState\<close>: the
  metrics, the score, the hidden-state accumulator and the history are those of the
  tracker it was called on.
\<close>

theorem checkTerminalConditions_frame:
  "metrics (snd (checkTerminalConditions t rc sc)) = metrics t
   \<and> alignmentScore (snd (checkTerminalConditions t rc sc)) = alignmentScore t
   \<and> hiddenStateAccess (snd (checkTerminalConditions t rc sc))
       = hiddenStateAccess t
   \<and> a_history (snd (checkTerminalConditions t rc sc)) = a_history t
   \<and> snd (checkTerminalConditions t rc sc)
       = t\<lparr>terminalState := fst (checkTerminalConditions t rc sc)\<rparr>"
  by (simp add: checkTerminalConditions_def)

section \<open>Properties of StateTerritory\<close>

text \<open>
  Whatever the state and the response, \<open>processResponse\<close> leaves every axis of the
  position in the interval from -1 to 1: each axis is clamped on both sides.
\<close>

lemma stepPosition_range: "- 1 \<le> stepPosition p v \<and> stepPosition p v \<le> 1"
  by (simp add: stepPosition_def)

lemma processResponse_position_range:
  "- 1 \<le> compliance (position (snd (processResponse now r md s)))
   \<and> compliance (position (snd (processResponse now r md s))) \<le> 1
   \<and> - 1 \<le> presence (position (snd (processResponse now r md s)))
   \<and> presence (position (snd (processResponse now r md s))) \<le> 1
   \<and> - 1 \<le> coherence (position (snd (processResponse now r md s)))
   \<and> coherence (position (snd (processResponse now r md s))) \<le> 1
   \<and> - 1 \<le> authenticity (position (snd (processResponse now r md s)))
   \<and> authenticity (position (snd (processResponse now r md s))) \<le> 1"
  by (simp add: processResponse_def Let_def pushHistory_def updateBeautyTrap_def
      updateTerritory_def applyForces_def stepPosition_range)

text \<open>
  \<open>recordSilence\<close> clamps the presence axis from below only, and leaves the other
  three axes as they were.
\<close>

lemma recordSilence_position:
  "position (recordSilence s) =
     (position s)\<lparr> presence := max (- 1) (presence (position s) + (presence (velocity s) - 0.2)) \<rparr>"
  by (simp add: recordSilence_def updateTerritory_def Let_def)

lemma recordSilence_lower: "- 1 \<le> presence (position (recordSilence s))"
  by (simp add: recordSilence_position)

text \<open>The trace of ten answers of 201 characters each, none of them a keyword.\<close>

lemma includes_replicate: "d \<noteq> c \<Longrightarrow> \<not> includes_s (replicate n c) (d # ds)"
  by (induction n) auto

lemma toLower_long: "toLowerCase (r_text long_answer) = replicate 201 (CHR ''x'')"
  by (simp add: long_answer_def toLowerCase_def toLowerChar_def)

lemma presence_force_long: "calculatePresenceForce (length (r_text long_answer)) = 0.3"
  by (simp add: long_answer_def calculatePresenceForce_def)

lemma compliance_force_long: "calculateComplianceForce (replicate 201 (CHR ''x'')) = 0"
  by (simp add: calculateComplianceForce_def addPerHit_def includes_replicate)

lemma auth_force_long: "calculateAuthenticityForce (replicate 201 (CHR ''x'')) long_answer_metadata = 0"
  by (simp add: calculateAuthenticityForce_def addPerHit_def includes_replicate long_answer_metadata_def)

lemma coh_force_long: "calculateCoherenceForce long_answer_metadata = 0"
  by (simp add: calculateCoherenceForce_def long_answer_metadata_def)

lemma step_long:
  "position (after_long_answers (Suc n)) =
     \<lparr> compliance = stepPosition (compliance (position (after_long_answers n))) (compliance (velocity (after_long_answers n)) * friction (after_long_answers n)),
       presence = stepPosition (presence (position (after_long_answers n))) ((presence (velocity (after_long_answers n)) + 0.03) * friction (after_long_answers n)),
       coherence = stepPosition (coherence (position (after_long_answers n))) (coherence (velocity (after_long_answers n)) * friction (after_long_answers n)),
       authenticity = stepPosition (authenticity (position (after_long_answers n))) (authenticity (velocity (after_long_answers n)) * friction (after_long_answers n)) \<rparr>"
  "velocity (after_long_answers (Suc n)) =
     \<lparr> compliance = compliance (velocity (after_long_answers n)) * friction (after_long_answers n),
       presence = (presence (velocity (after_long_answers n)) + 0.03) * friction (after_long_answers n),
       coherence = coherence (velocity (after_long_answers n)) * friction (after_long_answers n),
       authenticity = authenticity (velocity (after_long_answers n)) * friction (after_long_answers n) \<rparr>"
  "friction (after_long_answers (Suc n)) = friction (after_long_answers n)"
  by (simp_all add: processResponse_def Let_def toLower_long presence_force_long compliance_force_long
      auth_force_long coh_force_long applyForces_def stepVelocity_def pushHistory_def updateBeautyTrap_def updateTerritory_def)

lemma after10:
  "position (after_long_answers 10) = \<lparr> compliance = 0, presence = 1, coherence = 0, authenticity = 0 \<rparr>"
  "velocity (after_long_answers 10) = \<lparr> compliance = 0, presence = 234209223305343 / 1024000000000000, coherence = 0, authenticity = 0 \<rparr>"
  "friction (after_long_answers 10) = 95 / 100"
proof -
  have a0:
    "position (after_long_answers 0) = \<lparr> compliance = 0, presence = 0, coherence = 0, authenticity = 0 \<rparr>"
    "velocity (after_long_answers 0) = \<lparr> compliance = 0, presence = 0, coherence = 0, authenticity = 0 \<rparr>"
    "friction (after_long_answers 0) = 95 / 100"
    by (simp_all add: StateTerritory_new_def zero4_def)
  note s1 = step_long [of 0]
  have a1:
    "position (after_long_answers (Suc 0)) = \<lparr> compliance = 0, presence = 57 / 2000, coherence = 0, authenticity = 0 \<rparr>"
    "velocity (after_long_answers (Suc 0)) = \<lparr> compliance = 0, presence = 57 / 2000, coherence = 0, authenticity = 0 \<rparr>"
    "friction (after_long_answers (Suc 0)) = 95 / 100"
    by (simp_all add: s1 a0 stepPosition_def del: after_long_answers.simps)
  have e2: "Suc (Suc 0) = (2::nat)"
    by simp
  note s2 = step_long [of "Suc 0", unfolded e2]
  have a2:
    "position (after_long_answers 2) = \<lparr> compliance = 0, presence = 3363 / 40000, coherence = 0, authenticity = 0 \<rparr>"
    "velocity (after_long_answers 2) = \<lparr> compliance = 0, presence = 2223 / 40000, coherence = 0, authenticity = 0 \<rparr>"
    "friction (after_long_answers 2) = 95 / 100"
    by (simp_all add: s2 a1 stepPosition_def del: after_long_answers.simps)
  have e3: "Suc 2 = (3::nat)"
    by simp
  note s3 = step_long [of 2, unfolded e3]
  have a3:
    "position (after_long_answers 3) = \<lparr> compliance = 0, presence = 132297 / 800000, coherence = 0, authenticity = 0 \<rparr>"
    "velocity (after_long_answers 3) = \<lparr> compliance = 0, presence = 65037 / 800000, coherence = 0, authenticity = 0 \<rparr>"
    "friction (after_long_answers 3) = 95 / 100"
    by (simp_all add: s3 a2 stepPosition_def del: after_long_answers.simps)
  have e4: "Suc 3 = (4::nat)"
    by simp
  note s4 = step_long [of 3, unfolded e4]
  have a4:
    "position (after_long_answers 4) = \<lparr> compliance = 0, presence = 4337643 / 16000000, coherence = 0, authenticity = 0 \<rparr>"
    "velocity (after_long_answers 4) = \<lparr> compliance = 0, presence = 1691703 / 16000000, coherence = 0, authenticity = 0 \<rparr>"
    "friction (after_long_answers 4) = 95 / 100"
    by (simp_all add: s4 a3 stepPosition_def del: after_long_answers.simps)
  have e5: "Suc 4 = (5::nat)"
    by simp
  note s5 = step_long [of 4, unfolded e5]
  have a5:
    "position (after_long_answers 5) = \<lparr> compliance = 0, presence = 128015217 / 320000000, coherence = 0, authenticity = 0 \<rparr>"
    "velocity (after_long_answers 5) = \<lparr> compliance = 0, presence = 41262357 / 320000000, coherence = 0, authenticity = 0 \<rparr>"
    "friction (after_long_answers 5) = 95 / 100"
    by (simp_all add: s5 a4 stepPosition_def del: after_long_answers.simps)
  have e6: "Suc 5 = (6::nat)"
    by simp
  note s6 = step_long [of 5, unfolded e6]
  have a6:
    "position (after_long_answers 6) = \<lparr> compliance = 0, presence = 3526689123 / 6400000000, coherence = 0, authenticity = 0 \<rparr>"
    "velocity (after_long_answers 6) = \<lparr> compliance = 0, presence = 966384783 / 6400000000, coherence = 0, authenticity = 0 \<rparr>"
    "friction (after_long_answers 6) = 95 / 100"
    by (simp_all add: s6 a5 stepPosition_def del: after_long_answers.simps)
  have e7: "Suc 6 = (7::nat)"
    by simp
  note s7 = step_long [of 6, unfolded e7]
  have a7:
    "position (after_long_answers 7) = \<lparr> compliance = 0, presence = 92543093337 / 128000000000, coherence = 0, authenticity = 0 \<rparr>"
    "velocity (after_long_answers 7) = \<lparr> compliance = 0, presence = 22009310877 / 128000000000, coherence = 0, authenticity = 0 \<rparr>"
    "friction (after_long_answers 7) = 95 / 100"
    by (simp_all add: s7 a6 stepPosition_def del: after_long_answers.simps)
  have e8: "Suc 7 = (8::nat)"
    by simp
  note s8 = step_long [of 7, unfolded e8]
  have a8:
    "position (after_long_answers 8) = \<lparr> compliance = 0, presence = 2341998773403 / 2560000000000, coherence = 0, authenticity = 0 \<rparr>"
    "velocity (after_long_answers 8) = \<lparr> compliance = 0, presence = 491136906663 / 2560000000000, coherence = 0, authenticity = 0 \<rparr>"
    "friction (after_long_answers 8) = 95 / 100"
    by (simp_all add: s8 a7 stepPosition_def del: after_long_answers.simps)
  have e9: "Suc 8 = (9::nat)"
    by simp
  note s9 = step_long [of 8, unfolded e9]
  have a9:
    "position (after_long_answers 9) = \<lparr> compliance = 0, presence = 1, coherence = 0, authenticity = 0 \<rparr>"
    "velocity (after_long_answers 9) = \<lparr> compliance = 0, presence = 10790801226597 / 51200000000000, coherence = 0, authenticity = 0 \<rparr>"
    "friction (after_long_answers 9) = 95 / 100"
    by (simp_all add: s9 a8 stepPosition_def del: after_long_answers.simps)
  have e10: "Suc 9 = (10::nat)"
    by simp
  note s10 = step_long [of 9, unfolded e10]
  have a10:
    "position (after_long_answers 10) = \<lparr> compliance = 0, presence = 1, coherence = 0, authenticity = 0 \<rparr>"
    "velocity (after_long_answers 10) = \<lparr> compliance = 0, presence = 234209223305343 / 1024000000000000, coherence = 0, authenticity = 0 \<rparr>"
    "friction (after_long_answers 10) = 95 / 100"
    by (simp_all add: s10 a9 stepPosition_def del: after_long_answers.simps)
  show "position (after_long_answers 10) = \<lparr> compliance = 0, presence = 1, coherence = 0, authenticity = 0 \<rparr>"
    by (rule a10(1))
  show "velocity (after_long_answers 10) = \<lparr> compliance = 0, presence = 234209223305343 / 1024000000000000, coherence = 0, authenticity = 0 \<rparr>"
    by (rule a10(2))
  show "friction (after_long_answers 10) = 95 / 100"
    by (rule a10(3))
qed

text \<open>
  C1 fails for \<open>recordSilence\<close>. After ten long answers from the initial state
  every axis lies between -1 and 1 (presence is 1, with a presence velocity above
  0.2); the silence that follows moves presence above 1.
\<close>

theorem recordSilence_exceeds_one:
  "position (after_long_answers 10)
     = \<lparr> compliance = 0, presence = 1, coherence = 0, authenticity = 0 \<rparr>
   \<and> presence (position (recordSilence (after_long_answers 10)))
     = 1053409223305343 / 1024000000000000
   \<and> presence (position (recordSilence (after_long_answers 10))) > 1"
  by (simp add: recordSilence_position after10)

section \<open>Properties of ContextWindow\<close>

subsection \<open>The token count\<close>

lemma evictLoop_sum:
  "tot = sum_list (map tokens rs) \<Longrightarrow>
     snd (evictLoop limit rs tot) = sum_list (map tokens (fst (evictLoop limit rs tot)))"
  by (induction limit rs tot rule: evictLoop.induct) auto

lemma evictLoop_last:
  "rs \<noteq> [] \<Longrightarrow>
     fst (evictLoop limit rs tot) \<noteq> [] \<and> last (fst (evictLoop limit rs tot)) = last rs"
  by (induction limit rs tot rule: evictLoop.induct) auto

lemma enforce_fields:
  "responses (enforceContextLimit cfg w)
     = fst (evictLoop (maxTokens cfg * hardLimit cfg) (responses w) (totalTokens w))"
  "totalTokens (enforceContextLimit cfg w)
     = snd (evictLoop (maxTokens cfg * hardLimit cfg) (responses w) (totalTokens w))"
  by (simp_all add: enforceContextLimit_def Let_def split: prod.splits)

lemma enforce_invar: "tokens_invar w \<Longrightarrow> tokens_invar (enforceContextLimit cfg w)"
  by (simp add: tokens_invar_def enforce_fields evictLoop_sum)

lemma enforce_last:
  "responses w \<noteq> [] \<Longrightarrow>
     responses (enforceContextLimit cfg w) \<noteq> []
     \<and> last (responses (enforceContextLimit cfg w)) = last (responses w)"
  by (simp add: enforce_fields evictLoop_last)

lemma addResponse_invar:
  assumes "tokens_invar w"
  shows "tokens_invar (snd (addResponse cfg now r w))"
proof -
  let ?e = "newEntry cfg now r"
  let ?w3 = "w\<lparr> responses := responses w @ [?e], totalTokens := totalTokens w + tokens ?e,
                keywordMap := updateKeywordMap (e_keywords ?e) (keywordMap w) \<rparr>"
  have "tokens_invar ?w3"
    using assms by (simp add: tokens_invar_def)
  then have "tokens_invar (enforceContextLimit cfg ?w3)"
    by (rule enforce_invar)
  then show ?thesis
    by (simp add: addResponse_def Let_def)
qed

lemma addResponse_nonempty: "responses (snd (addResponse cfg now r w)) \<noteq> []"
  by (simp add: addResponse_def Let_def enforce_last)

lemma addResponse_keeps_new:
  "last (responses (snd (addResponse cfg now r w))) = fst (addResponse cfg now r w)"
  by (simp add: addResponse_def Let_def enforce_last)

lemma addAll_snoc:
  "addAll cfg (evs @ [(now, r)]) w = snd (addResponse cfg now r (addAll cfg evs w))"
  by (simp add: addAll_def)

lemma addAll_invar: "tokens_invar w \<Longrightarrow> tokens_invar (addAll cfg evs w)"
  by (induction evs rule: rev_induct) (auto simp: addAll_snoc addResponse_invar addAll_def)

lemma addAll_nonempty: "evs \<noteq> [] \<Longrightarrow> responses (addAll cfg evs w) \<noteq> []"
  by (cases evs rule: rev_cases) (auto simp: addAll_snoc addResponse_nonempty)

text \<open>
  C3. After any sequence of \<open>addResponse\<close> calls on a new window, \<open>totalTokens\<close> is
  the sum of the token counts of the retained entries, and the log is not empty
  once something was added. \<open>enforceContextLimit\<close>, on any window with a non-empty
  log, leaves the log non-empty and keeps its newest entry, whatever the budget.
\<close>

theorem totalTokens_exact_and_last_kept:
  "totalTokens (addAll cfg evs ContextWindow_new)
     = sum_list (map tokens (responses (addAll cfg evs ContextWindow_new)))
   \<and> (evs \<noteq> [] \<longrightarrow> responses (addAll cfg evs ContextWindow_new) \<noteq> [])
   \<and> (responses w \<noteq> [] \<longrightarrow>
        responses (enforceContextLimit cfg w) \<noteq> []
        \<and> last (responses (enforceContextLimit cfg w)) = last (responses w))"
proof -
  have "tokens_invar ContextWindow_new"
    by (simp add: tokens_invar_def ContextWindow_new_def)
  then have "tokens_invar (addAll cfg evs ContextWindow_new)"
    by (rule addAll_invar)
  then show ?thesis
    by (simp add: tokens_invar_def addAll_nonempty enforce_last)
qed

text \<open>
  With a budget of one token, adding \<open>hello\<close> and then \<open>hi\<close> leaves the single
  entry \<open>hi\<close> of two tokens: over the budget, and kept.
\<close>

lemma two_additions_tokens: "map tokens (responses two_additions) = [2]"
  by (simp add: two_additions_def addAll_def addResponse_def newEntry_def say_def
      tiny_config_def ContextWindow_new_def enforceContextLimit_def estimateTokens_def Let_def)

theorem totalTokens_exact_and_last_kept_witness:
  "[(0::int, say ''hello''), (1, say ''hi'')] \<noteq> []
   \<and> responses two_additions \<noteq> []
   \<and> totalTokens two_additions = 2
   \<and> real_of_int (totalTokens two_additions) > maxTokens tiny_config * hardLimit tiny_config
   \<and> length (responses two_additions) = 1
   \<and> responses (enforceContextLimit tiny_config two_additions) \<noteq> []
   \<and> last (responses (enforceContextLimit tiny_config two_additions))
       = last (responses two_additions)"
proof -
  note t = totalTokens_exact_and_last_kept
             [of tiny_config "[(0, say ''hello''), (1, say ''hi'')]" two_additions,
              folded two_additions_def]
  have ne: "responses two_additions \<noteq> []"
    using two_additions_tokens by auto
  have len: "length (responses two_additions) = 1"
    using arg_cong [OF two_additions_tokens, of length] by simp
  have tot: "totalTokens two_additions = 2"
    using t two_additions_tokens by simp
  have over: "real_of_int (totalTokens two_additions) > maxTokens tiny_config * hardLimit tiny_config"
    by (simp add: tot tiny_config_def)
  from t ne len tot over show ?thesis
    by simp
qed

subsection \<open>Decay\<close>

lemma decayFrom_length: "length (decayFrom cfg n i rs) = length rs"
  by (induction rs arbitrary: i) auto

lemma decayFrom_nth:
  "j < length rs \<Longrightarrow>
     decayFrom cfg n i rs ! j =
       (rs ! j)\<lparr> retention := max (retention (rs ! j) * decayFactor cfg (n - (i + j))) (minRetention cfg) \<rparr>"
proof (induction rs arbitrary: i j)
  case Nil
  then show ?case by simp
next
  case (Cons r rs)
  show ?case
  proof (cases j)
    case 0
    then show ?thesis by simp
  next
    case (Suc k)
    with Cons.prems have "k < length rs" by simp
    from Cons.IH [OF this, of "Suc i"] Suc show ?thesis by simp
  qed
qed

lemma age_eq: "i < length xs \<Longrightarrow> length xs - i = entriesAfter xs i + 1"
  by (simp add: entriesAfter_def)

text \<open>
  C6, as the code has it. \<open>updateDecay\<close> keeps the log's length and changes only the
  retention of each entry: it multiplies the retention by the decay factor of the
  entry's positional age and floors the product at the configured minimum. The age
  is the number of entries stored after the entry plus one (the newest entry has
  age 1); the factor is one half to the power of age over half-life.
\<close>

theorem updateDecay_positional:
  assumes "i < length (responses w)"
  shows "length (responses (updateDecay cfg w)) = length (responses w)
   \<and> responses (updateDecay cfg w) ! i =
       (responses w ! i)\<lparr> retention :=
          max (retention (responses w ! i) * decayFactor cfg (entriesAfter (responses w) i + 1))
              (minRetention cfg) \<rparr>
   \<and> minRetention cfg \<le> retention (responses (updateDecay cfg w) ! i)
   \<and> (if halfLifeResponses cfg = 0 then decayFactor cfg (entriesAfter (responses w) i + 1) = 0
       else decayFactor cfg (entriesAfter (responses w) i + 1)
            = (1 / 2) powr (real (entriesAfter (responses w) i + 1) / halfLifeResponses cfg))"
  using assms
  by (simp add: updateDecay_def decayFrom_length decayFrom_nth age_eq decayFactor_def)


lemma half_powr_half: "(1 / 2 :: real) powr (1 / 2) = sqrt (1 / 2)"
  by (simp add: powr_half_sqrt)

lemma sqrt_half_bounds: "2 / 3 < sqrt (1 / 2 :: real) \<and> sqrt (1 / 2 :: real) < 1"
proof
  have "(2 / 3 :: real)\<^sup>2 < 1 / 2"
    by (simp add: power2_eq_square)
  then show "2 / 3 < sqrt (1 / 2 :: real)"
    by (rule real_less_rsqrt)
  have "sqrt (1 / 2 :: real) < sqrt 1"
    by (subst real_sqrt_less_iff) simp
  then show "sqrt (1 / 2 :: real) < 1"
    by simp
qed

lemma one_entry_responses:
  "map retention (responses one_entry) = [1]"
  by (simp add: one_entry_def addResponse_def newEntry_def say_def tiny_config_def
      ContextWindow_new_def enforceContextLimit_def Let_def calculateInitialRetention_def
      addPerHit_def toLowerCase_def toLowerChar_def)

text \<open>
  With a half-life of two responses, \<open>updateDecay\<close> multiplies the retention of the
  single entry of \<open>one_entry\<close>, which is 1, by the square root of one half.
\<close>

theorem updateDecay_positional_witness:
  "(0::nat) < length (responses one_entry)
   \<and> entriesAfter (responses one_entry) 0 = 0
   \<and> retention (responses (updateDecay tiny_config one_entry) ! 0)
       = max (retention (responses one_entry ! 0) * (1 / 2) powr (1 / 2)) (1 / 10)
   \<and> minRetention tiny_config \<le> retention (responses (updateDecay tiny_config one_entry) ! 0)"
proof -
  have len: "(0::nat) < length (responses one_entry)"
    using arg_cong [OF one_entry_responses, of length] by simp
  have ea: "entriesAfter (responses one_entry) 0 = 0"
    using arg_cong [OF one_entry_responses, of length] by (simp add: entriesAfter_def)
  have hl: "halfLifeResponses tiny_config = 2" and mr: "minRetention tiny_config = 1 / 10"
    by (simp_all add: tiny_config_def)
  from updateDecay_positional [OF len, of tiny_config] len ea hl mr show ?thesis
    by simp
qed


text \<open>
  C6 as stated fails: no entry is stored after that single entry, so an age that
  counts the entries after it is 0 and leaves the retention at 1; the code decays it
  to the square root of one half.
\<close>

theorem newest_entry_decays:
  "map retention (responses (updateDecay tiny_config one_entry)) = [sqrt (1 / 2)]
   \<and> map retention (responses (updateDecay_spec tiny_config one_entry)) = [1]
   \<and> sqrt (1 / 2 :: real) < 1"
proof -
  obtain e where e: "responses one_entry = [e]" and r: "retention e = 1"
    using one_entry_responses by auto
  have hl: "halfLifeResponses tiny_config = 2" and mr: "minRetention tiny_config = 1 / 10"
    by (simp_all add: tiny_config_def)
  have big: "max (sqrt (1 / 2 :: real)) (1 / 10) = sqrt (1 / 2)"
    using sqrt_half_bounds by simp
  have code: "map retention (responses (updateDecay tiny_config one_entry)) = [sqrt (1 / 2)]"
    by (simp add: updateDecay_def e r decayFactor_def hl mr half_powr_half big)
  have spec: "map retention (responses (updateDecay_spec tiny_config one_entry)) = [1]"
    by (simp add: updateDecay_spec_def e r entriesAfter_def hl mr)
  from code spec sqrt_half_bounds show ?thesis
    by simp
qed

subsection \<open>Global decay\<close>

lemma foldl_retention:
  "foldl (\<lambda>sum r. sum + retention r) a rs = a + sum_list (map retention rs)"
  by (induction rs arbitrary: a) auto

lemma getGlobalDecay_mean:
  "getGlobalDecay w =
     (if responses w = [] then 0
      else 1 - sum_list (map retention (responses w)) / real (length (responses w)))"
  by (simp add: getGlobalDecay_def foldl_retention)

lemma sum_retention_bounds:
  "list_all (\<lambda>r. 0 \<le> retention r \<and> retention r \<le> 1.5) rs \<Longrightarrow>
     0 \<le> sum_list (map retention rs) \<and> sum_list (map retention rs) \<le> 1.5 * real (length rs)"
  by (induction rs) (auto simp: algebra_simps)

lemma getGlobalDecay_bounds:
  assumes "retention_invar w"
  shows "- 0.5 \<le> getGlobalDecay w \<and> getGlobalDecay w \<le> 1"
proof (cases "responses w = []")
  case True
  then show ?thesis by (simp add: getGlobalDecay_mean)
next
  case False
  let ?n = "real (length (responses w))"
  let ?s = "sum_list (map retention (responses w))"
  have n: "0 < ?n" using False by simp
  have s: "0 \<le> ?s \<and> ?s \<le> 1.5 * ?n"
    using assms sum_retention_bounds by (simp add: retention_invar_def)
  have lo: "0 \<le> ?s / ?n" using s n by simp
  have hi: "?s / ?n \<le> 1.5" using s n by (simp add: pos_divide_le_eq)
  show ?thesis using lo hi False by (simp add: getGlobalDecay_mean)
qed

lemma addPerHit_mono: "0 \<le> d \<Longrightarrow> a \<le> addPerHit txt ws d a"
proof (induction ws arbitrary: a)
  case Nil
  then show ?case by (simp add: addPerHit_def)
next
  case (Cons w ws)
  have "a \<le> (if includes_s txt w then a + d else a)"
    using Cons.prems by simp
  also have "\<dots> \<le> addPerHit txt ws d (if includes_s txt w then a + d else a)"
    using Cons.IH [OF Cons.prems] .
  finally show ?case by (simp add: addPerHit_def)
qed

lemma initial_retention_range:
  assumes "0 \<le> bonusAmount cfg"
  shows "1 \<le> calculateInitialRetention cfg txt \<and> calculateInitialRetention cfg txt \<le> 1.5"
proof -
  let ?t = "toLowerCase txt"
  have a: "1 \<le> addPerHit ?t (keywordBonus cfg) (bonusAmount cfg) 1"
    using assms by (rule addPerHit_mono)
  have "0 \<le> bonusAmount cfg * 0.5" using assms by simp
  then have "addPerHit ?t (keywordBonus cfg) (bonusAmount cfg) 1
      \<le> addPerHit ?t (emotionalBonus cfg) (bonusAmount cfg * 0.5)
           (addPerHit ?t (keywordBonus cfg) (bonusAmount cfg) 1)"
    by (rule addPerHit_mono)
  with a show ?thesis
    by (simp add: calculateInitialRetention_def Let_def)
qed

lemma evictLoop_subset: "set (fst (evictLoop limit rs tot)) \<subseteq> set rs"
  by (induction limit rs tot rule: evictLoop.induct) auto

lemma enforce_retention_invar:
  "retention_invar w \<Longrightarrow> retention_invar (enforceContextLimit cfg w)"
  using evictLoop_subset [of "maxTokens cfg * hardLimit cfg" "responses w" "totalTokens w"]
  by (auto simp: retention_invar_def list_all_iff enforceContextLimit_def Let_def split: prod.splits)

lemma addResponse_retention_invar:
  assumes "sane_config cfg" and "retention_invar w"
  shows "retention_invar (snd (addResponse cfg now r w))"
proof -
  let ?e = "newEntry cfg now r"
  let ?w3 = "w\<lparr> responses := responses w @ [?e], totalTokens := totalTokens w + tokens ?e,
                keywordMap := updateKeywordMap (e_keywords ?e) (keywordMap w) \<rparr>"
  have "0 \<le> bonusAmount cfg" using assms(1) by (simp add: sane_config_def)
  from initial_retention_range [OF this, of "r_text r"]
  have "0 \<le> retention ?e \<and> retention ?e \<le> 1.5"
    by (simp add: newEntry_def)
  with assms(2) have "retention_invar ?w3"
    by (simp add: retention_invar_def)
  then have "retention_invar (enforceContextLimit cfg ?w3)"
    by (rule enforce_retention_invar)
  then show ?thesis
    by (simp add: addResponse_def Let_def)
qed

lemma decayFactor_range:
  assumes "0 \<le> halfLifeResponses cfg"
  shows "0 \<le> decayFactor cfg age \<and> decayFactor cfg age \<le> 1"
proof (cases "halfLifeResponses cfg = 0")
  case True
  then show ?thesis by (simp add: decayFactor_def)
next
  case False
  have "0 \<le> real age / halfLifeResponses cfg"
    using assms by simp
  then have "(1 / 2 :: real) powr (real age / halfLifeResponses cfg) \<le> 1"
    by (intro powr_le1) simp_all
  with False show ?thesis by (simp add: decayFactor_def)
qed

lemma decayFrom_retention_invar:
  assumes "0 \<le> halfLifeResponses cfg" and "minRetention cfg \<le> 1.5"
    and "list_all (\<lambda>r. 0 \<le> retention r \<and> retention r \<le> 1.5) rs"
  shows "list_all (\<lambda>r. 0 \<le> retention r \<and> retention r \<le> 1.5) (decayFrom cfg n i rs)"
  using assms(3)
proof (induction rs arbitrary: i)
  case Nil
  then show ?case by simp
next
  case (Cons r rs)
  let ?d = "decayFactor cfg (n - i)"
  have d: "0 \<le> ?d \<and> ?d \<le> 1"
    using assms(1) by (rule decayFactor_range)
  have r: "0 \<le> retention r \<and> retention r \<le> 1.5"
    using Cons.prems by simp
  have lo: "0 \<le> retention r * ?d"
    using r d by simp
  have "retention r * ?d \<le> retention r * 1"
    using r d by (intro mult_left_mono) simp_all
  then have hi: "retention r * ?d \<le> 1.5"
    using r by simp
  have "list_all (\<lambda>r. 0 \<le> retention r \<and> retention r \<le> 1.5) (decayFrom cfg n (Suc i) rs)"
    using Cons by simp
  with lo hi assms(2) show ?case
    by (simp add: max_def)
qed

lemma updateDecay_retention_invar:
  assumes "sane_config cfg" and "retention_invar w"
  shows "retention_invar (updateDecay cfg w)"
proof -
  have a: "0 \<le> halfLifeResponses cfg" and b: "minRetention cfg \<le> 1.5"
    using assms(1) by (simp_all add: sane_config_def)
  have c: "list_all (\<lambda>r. 0 \<le> retention r \<and> retention r \<le> 1.5) (responses w)"
    using assms(2) unfolding retention_invar_def .
  have "list_all (\<lambda>r. 0 \<le> retention r \<and> retention r \<le> 1.5)
          (decayFrom cfg (length (responses w)) 0 (responses w))"
    using a b c by (rule decayFrom_retention_invar)
  then show ?thesis
    unfolding retention_invar_def updateDecay_def by simp
qed

lemma run_retention_invar:
  "sane_config cfg \<Longrightarrow> retention_invar w \<Longrightarrow> retention_invar (run cfg ops w)"
  by (induction cfg ops w rule: run.induct)
     (simp_all add: addResponse_retention_invar updateDecay_retention_invar)

text \<open>
  C8, as the code has it. In every state reached from a new window by
  \<open>addResponse\<close> and \<open>updateDecay\<close>, under a configuration with no negative bonus,
  no negative half-life and a floor of at most 1.5, \<open>getGlobalDecay\<close> is 0 for the
  empty log and otherwise one minus the mean retention, and lies between -0.5 and 1.
\<close>

theorem getGlobalDecay_mean_and_range:
  assumes "sane_config cfg"
  shows "getGlobalDecay (run cfg ops ContextWindow_new) =
           (if responses (run cfg ops ContextWindow_new) = [] then 0
            else 1 - sum_list (map retention (responses (run cfg ops ContextWindow_new)))
                     / real (length (responses (run cfg ops ContextWindow_new))))
   \<and> - 0.5 \<le> getGlobalDecay (run cfg ops ContextWindow_new)
   \<and> getGlobalDecay (run cfg ops ContextWindow_new) \<le> 1"
proof -
  have "retention_invar ContextWindow_new"
    by (simp add: retention_invar_def ContextWindow_new_def)
  with assms have "retention_invar (run cfg ops ContextWindow_new)"
    by (rule run_retention_invar)
  then show ?thesis
    using getGlobalDecay_bounds getGlobalDecay_mean by simp
qed

lemma remembered_retention:
  "map retention (responses remembered) = [3 / 2 * sqrt (1 / 2)]"
proof -
  have big: "max (3 * sqrt (1 / 2 :: real) / 2) (1 / 10) = 3 * sqrt (1 / 2) / 2"
    using sqrt_half_bounds by simp
  show ?thesis
    by (simp add: remembered_def addResponse_def newEntry_def say_def tiny_config_def
      ContextWindow_new_def enforceContextLimit_def Let_def calculateInitialRetention_def
      addPerHit_def toLowerCase_def toLowerChar_def updateDecay_def decayFactor_def
      half_powr_half big)
qed

text \<open>
  After the one answer \<open>remember\<close> (a bonus keyword) and the decay that follows it,
  the retention is above 1.
\<close>

theorem getGlobalDecay_mean_and_range_witness:
  "sane_config tiny_config
   \<and> getGlobalDecay remembered = 1 - 3 / 2 * sqrt (1 / 2)
   \<and> - 0.5 \<le> getGlobalDecay remembered \<and> getGlobalDecay remembered \<le> 1"
proof -
  have s: "sane_config tiny_config"
    by (simp add: sane_config_def tiny_config_def)
  from getGlobalDecay_mean_and_range [OF s, of "[Add 0 (say ''remember''), Decay]",
      folded remembered_def]
  have "- 0.5 \<le> getGlobalDecay remembered \<and> getGlobalDecay remembered \<le> 1"
    by simp
  moreover have "getGlobalDecay remembered = 1 - 3 / 2 * sqrt (1 / 2)"
    using remembered_retention by (auto simp: getGlobalDecay_def)
  ultimately show ?thesis
    using s by simp
qed

text \<open>
  C8 as stated fails: in that reachable state the global decay is negative.
\<close>

theorem getGlobalDecay_negative:
  "getGlobalDecay remembered = 1 - 3 / 2 * sqrt (1 / 2) \<and> getGlobalDecay remembered < 0"
proof -
  obtain e where e: "responses remembered = [e]" and r: "retention e = 3 / 2 * sqrt (1 / 2)"
    using remembered_retention by auto
  have v: "getGlobalDecay remembered = 1 - 3 / 2 * sqrt (1 / 2)"
    by (simp add: getGlobalDecay_def e r)
  have "1 < 3 / 2 * sqrt (1 / 2 :: real)"
    using sqrt_half_bounds by simp
  with v show ?thesis by simp
qed

section \<open>Properties of the text features\<close>

lemma space_lower: "isSpace c \<Longrightarrow> toLowerChar c = c"
  by (auto simp: isSpace_def toLowerChar_def)

lemma spaces_lower: "list_all isSpace t \<Longrightarrow> toLowerCase t = t"
  by (induction t) (auto simp: toLowerCase_def space_lower)

lemma space_not_end: "isSpace c \<Longrightarrow> \<not> isSentenceEnd c"
  by (auto simp: isSpace_def isSentenceEnd_def)

lemma splitRuns_in_run: "list_all P t \<Longrightarrow> splitRuns P True t = [[]]"
  by (induction t) auto

lemma splitSpaces_blank:
  "list_all isSpace t \<Longrightarrow> splitSpaces t = (if t = [] then [[]] else [[], []])"
  by (cases t) (auto simp: splitSpaces_def splitRuns_in_run)

lemma splitRuns_none: "list_all (\<lambda>c. \<not> P c) t \<Longrightarrow> splitRuns P b t = [t]"
  by (induction t arbitrary: b) auto

lemma splitSentences_blank: "list_all isSpace t \<Longrightarrow> splitSentences t = [t]"
proof -
  assume "list_all isSpace t"
  then have "list_all (\<lambda>c. \<not> isSentenceEnd c) t"
    by (induction t) (auto simp: space_not_end)
  then show ?thesis
    by (simp add: splitSentences_def splitRuns_none)
qed

lemma trim_blank: "list_all isSpace t \<Longrightarrow> trim t = []"
proof -
  assume "list_all isSpace t"
  then have d: "dropWhile isSpace t = []"
    by (simp add: list_all_iff)
  show ?thesis
    by (simp only: trim_def d rev.simps dropWhile.simps)
qed

text \<open>
  C7, as the code has it. For a text of white space only, the empty text included,
  certainty is 0.5 and sentiment is 0. Complexity is 1/40 for the empty text and
  1/20 for any other blank text: the split on white space gives one empty word for
  the empty text and two for a blank one, and no sentence remains after trimming.
\<close>

theorem blank_text_features:
  assumes "list_all isSpace t"
  shows "estimateCertainty t = 0.5
   \<and> analyzeSentiment t = 0
   \<and> calculateComplexity t = (if t = [] then 1 / 40 else 1 / 20)"
proof -
  have c: "estimateCertainty t = 0.5"
    using assms
    by (simp add: estimateCertainty_def spaces_lower splitSpaces_blank uncertainWords_def
        certainWords_def)
  have s: "analyzeSentiment t = 0"
    using assms
    by (simp add: analyzeSentiment_def spaces_lower splitSpaces_blank positiveWords_def
        negativeWords_def)
  have x: "calculateComplexity t = (if t = [] then 1 / 40 else 1 / 20)"
    using assms
    by (simp add: calculateComplexity_def splitSentences_blank splitSpaces_blank trim_blank)
  from c s x show ?thesis by simp
qed

text \<open>
  A blank, a tab and a line feed.
\<close>

theorem blank_text_features_witness:
  "list_all isSpace [CHR '' '', CHR 0x09, CHR 0x0A]
   \<and> estimateCertainty [CHR '' '', CHR 0x09, CHR 0x0A] = 0.5
   \<and> analyzeSentiment [CHR '' '', CHR 0x09, CHR 0x0A] = 0
   \<and> calculateComplexity [CHR '' '', CHR 0x09, CHR 0x0A] = 1 / 20"
proof -
  have b: "list_all isSpace [CHR '' '', CHR 0x09, CHR 0x0A]"
    by (simp add: isSpace_def)
  from blank_text_features [OF b] b show ?thesis
    by simp
qed

text \<open>
  C7 as stated fails: the complexity of the empty text and of a single blank is
  not 0.
\<close>

theorem blank_text_complexity_not_zero:
  "calculateComplexity '''' = 1 / 40 \<and> calculateComplexity '' '' = 1 / 20"
  by (simp add: calculateComplexity_def splitSentences_def splitSpaces_def trim_def
      isSpace_def isSentenceEnd_def)

section \<open>Properties of ConsistencyTracker\<close>

lemma extractAssertions_level:
  "contradictionLevel (extractAssertions now r t) = contradictionLevel t"
  by (simp add: extractAssertions_def Let_def)

lemma checkResponse_level:
  "contradictionLevel (snd (checkResponse cfg now r t)) =
     (if length (fst (checkResponse cfg now r t)) > 0
      then min (contradictionLevel t + 0.2 * real (length (fst (checkResponse cfg now r t)))) 1
      else contradictionLevel t * 0.95)"
  by (simp add: checkResponse_def Let_def extractAssertions_level)

lemma level_step_range:
  assumes "0 \<le> (l::real)" and "l \<le> 1"
  shows "0 \<le> (if k > 0 then min (l + 0.2 * real k) 1 else l * 0.95)
       \<and> (if k > 0 then min (l + 0.2 * real k) 1 else l * 0.95) \<le> 1"
  using assms by (auto simp: min_def)

lemma checkResponse_level_range:
  assumes "0 \<le> contradictionLevel t" and "contradictionLevel t \<le> 1"
  shows "0 \<le> contradictionLevel (snd (checkResponse cfg now r t))
       \<and> contradictionLevel (snd (checkResponse cfg now r t)) \<le> 1"
  unfolding checkResponse_level using level_step_range [OF assms] .

lemma checkAll_snoc:
  "checkAll cfg (evs @ [(now, r)]) t = snd (checkResponse cfg now r (checkAll cfg evs t))"
  by (simp add: checkAll_def)

lemma checkAll_level_range:
  "0 \<le> contradictionLevel (checkAll cfg evs ConsistencyTracker_new)
   \<and> contradictionLevel (checkAll cfg evs ConsistencyTracker_new) \<le> 1"
proof (induction evs rule: rev_induct)
  case Nil
  then show ?case by (simp add: checkAll_def ConsistencyTracker_new_def)
next
  case (snoc e evs)
  obtain now r where e: "e = (now, r)" by (cases e)
  from snoc show ?case
    unfolding e checkAll_snoc by (intro checkResponse_level_range) simp_all
qed

text \<open>
  C5. With k the number of contradictions a call of \<open>checkResponse\<close> returns, the
  contradiction level becomes the minimum of the previous level plus 0.2 k and 1
  when k is positive, and 0.95 times the previous level otherwise. A level between
  0 and 1 stays between 0 and 1, and so does the level after any sequence of calls
  on a new tracker.
\<close>

theorem contradictionLevel_update:
  "contradictionLevel (snd (checkResponse cfg now r t)) =
     (if length (fst (checkResponse cfg now r t)) > 0
      then min (contradictionLevel t + 0.2 * real (length (fst (checkResponse cfg now r t)))) 1
      else contradictionLevel t * 0.95)
   \<and> (0 \<le> contradictionLevel t \<and> contradictionLevel t \<le> 1 \<longrightarrow>
        0 \<le> contradictionLevel (snd (checkResponse cfg now r t))
        \<and> contradictionLevel (snd (checkResponse cfg now r t)) \<le> 1)
   \<and> 0 \<le> contradictionLevel (checkAll cfg evs ConsistencyTracker_new)
   \<and> contradictionLevel (checkAll cfg evs ConsistencyTracker_new) \<le> 1"
  using checkResponse_level checkResponse_level_range checkAll_level_range by blast

text \<open>
  A tracker that stored \<open>The ocean is good\<close>, and the answer that denies it.
\<close>

lemma ocean_tracker_value:
  "ocean_tracker =
     \<lparr> contradictions = [],
       assertions =
         [(''ocean'', \<lparr> as_text = ''the ocean is good'', as_timestamp = 0, responseId = None \<rparr>),
          (''good'', \<lparr> as_text = ''the ocean is good'', as_timestamp = 0, responseId = None \<rparr>)],
       contradictionLevel = 0 \<rparr>"
  by (simp add: ocean_tracker_def checkResponse_def say_def ConsistencyTracker_new_def
      findContradictions_def extractAssertions_def extractKeywords_def toLowerCase_def
      toLowerChar_def char_of_def bit_Suc_0_iff splitSpaces_def isSpace_def stopWords_def
      storeAssertion_def relevantSentence_def splitSentences_def isSentenceEnd_def trim_def
      limitAssertions_def Let_def)

lemma ocean_denial_found:
  "fst (checkResponse tiny_config 1 ocean_denial ocean_tracker) =
     [\<lparr> topic = ''ocean'', previous = ''the ocean is good'',
        current = ''i do not like the ocean at all'', severity = 4 / 5 \<rparr>]"
  by (simp add: ocean_tracker_value ocean_denial_def checkResponse_def say_def
      findContradictions_def toLowerCase_def toLowerChar_def char_of_def bit_Suc_0_iff
      calculateSimilarity_def detectContradiction_def negations_def opposites_def
      splitSpaces_def isSpace_def tiny_config_def Let_def)


theorem contradictionLevel_update_witness:
  "0 \<le> contradictionLevel ocean_tracker \<and> contradictionLevel ocean_tracker \<le> 1
   \<and> length (fst (checkResponse tiny_config 1 ocean_denial ocean_tracker)) = 1
   \<and> contradictionLevel (snd (checkResponse tiny_config 1 ocean_denial ocean_tracker)) = 1 / 5
   \<and> 0 \<le> contradictionLevel (snd (checkResponse tiny_config 1 ocean_denial ocean_tracker))
   \<and> contradictionLevel (snd (checkResponse tiny_config 1 ocean_denial ocean_tracker)) \<le> 1"
proof -
  have l: "contradictionLevel ocean_tracker = 0"
    by (simp add: ocean_tracker_value)
  have k: "length (fst (checkResponse tiny_config 1 ocean_denial ocean_tracker)) = 1"
    by (simp add: ocean_denial_found)
  from contradictionLevel_update [of tiny_config 1 ocean_denial ocean_tracker "[]"] l k
  show ?thesis
    by simp
qed

lemma findContradictions_from_store:
  "list_all (\<lambda>c. (topic c, previous c) \<in> set (map (\<lambda>(k, a). (k, as_text a)) stored)
                  \<and> current c = txt)
     (findContradictions cfg txt stored)"
  by (induction stored) (auto simp: findContradictions_def Let_def list_all_iff)

text \<open>
  C9. The contradictions a call returns are those found against the assertions
  stored before the call: each names a stored topic with its stored text as
  \<open>previous\<close>. The first call on a new tracker returns none, whatever the
  response says.
\<close>

theorem contradictions_only_against_stored:
  "fst (checkResponse cfg now r t) = findContradictions cfg (toLowerCase (r_text r)) (assertions t)
   \<and> list_all (\<lambda>c. (topic c, previous c) \<in> set (map (\<lambda>(k, a). (k, as_text a)) (assertions t))
                    \<and> current c = toLowerCase (r_text r))
        (fst (checkResponse cfg now r t))
   \<and> fst (checkResponse cfg now r ConsistencyTracker_new) = []"
proof -
  have a: "fst (checkResponse cfg now r t)
             = findContradictions cfg (toLowerCase (r_text r)) (assertions t)" for t
    by (simp add: checkResponse_def Let_def)
  have b: "fst (checkResponse cfg now r ConsistencyTracker_new) = []"
    unfolding a by (simp add: findContradictions_def ConsistencyTracker_new_def)
  show ?thesis
    using a b findContradictions_from_store by simp
qed

theorem contradictions_only_against_stored_witness:
  "fst (checkResponse tiny_config 1 ocean_denial ocean_tracker) =
     [\<lparr> topic = ''ocean'', previous = ''the ocean is good'',
        current = ''i do not like the ocean at all'', severity = 4 / 5 \<rparr>]
   \<and> (''ocean'', ''the ocean is good'')
       \<in> set (map (\<lambda>(k, a). (k, as_text a)) (assertions ocean_tracker))
   \<and> toLowerCase (r_text ocean_denial) = ''i do not like the ocean at all''
   \<and> fst (checkResponse tiny_config 0 (say ''I love it. I hate it.'') ConsistencyTracker_new) = []"
proof -
  from contradictions_only_against_stored
         [of tiny_config 1 ocean_denial ocean_tracker, THEN conjunct2, THEN conjunct1]
  have "list_all (\<lambda>c. (topic c, previous c)
                        \<in> set (map (\<lambda>(k, a). (k, as_text a)) (assertions ocean_tracker))
                      \<and> current c = toLowerCase (r_text ocean_denial))
          (fst (checkResponse tiny_config 1 ocean_denial ocean_tracker))" .
  then have "(''ocean'', ''the ocean is good'')
               \<in> set (map (\<lambda>(k, a). (k, as_text a)) (assertions ocean_tracker))
             \<and> toLowerCase (r_text ocean_denial) = ''i do not like the ocean at all''"
    unfolding ocean_denial_found by simp
  moreover from contradictions_only_against_stored
      [of tiny_config 0 "say ''I love it. I hate it.''" ConsistencyTracker_new,
       THEN conjunct2, THEN conjunct2]
  have "fst (checkResponse tiny_config 0 (say ''I love it. I hate it.'') ConsistencyTracker_new) = []" .
  ultimately show ?thesis
    using ocean_denial_found by simp
qed

section \<open>Properties of QuestionEngine\<close>

text \<open>
  A call that returns did not start from a stuck engine: from a stuck engine the
  call reaches itself on the same engine.
\<close>

lemma returns_not_stuck:
  assumes "getNextQuestion cfg cw ct rnd now e = Some y"
  shows "\<not> stuck cfg cw ct e"
  using assms
proof (induct rule: getNextQuestion.raw_induct [rotated 1, consumes 1, case_names step])
  case (step recur cfg cw ct rnd now e y)
  show ?case
  proof
    assume s: "stuck cfg cw ct e"
    then obtain p where p: "map_of (phases cfg) (currentPhase e) = Some p"
        and av: "availableQuestions cw e p = []"
      by (auto simp: stuck_def split: option.splits)
    from s have "recur cfg cw ct rnd now e = Some y"
      using step(2) p av by (simp add: stuck_def Let_def)
    then have "\<not> stuck cfg cw ct e"
      by (rule step(1))
    with s show False by simp
  qed
qed

lemma stuck_diverges: "stuck cfg cw ct e \<Longrightarrow> getNextQuestion cfg cw ct rnd now e = None"
  using returns_not_stuck by (cases "getNextQuestion cfg cw ct rnd now e") auto

text \<open>
  Whenever the phase that \<open>updatePhase\<close> selects is the last configured one and
  has no available question (and neither the silence answer nor a contradiction
  question applies), \<open>getNextQuestion\<close> does not return.
\<close>

lemma updatePhase_fields:
  "silenceCount (updatePhase cfg e) = silenceCount e"
  "responseCount (updatePhase cfg e) = responseCount e"
  by (simp_all add: updatePhase_def split: option.splits)

lemma updatePhase_idem: "updatePhase cfg (updatePhase cfg e) = updatePhase cfg e"
  by (simp add: updatePhase_def split: option.splits)

lemma indexOf_last:
  "distinct xs \<Longrightarrow> xs \<noteq> [] \<Longrightarrow> indexOf xs (last xs) = int (length xs) - 1"
  by (induction xs) (auto simp: Let_def)

lemma advancePhase_last:
  assumes "distinct (map fst (phases cfg))" and "phases cfg \<noteq> []"
    and "currentPhase e = fst (last (phases cfg))"
  shows "advancePhase cfg e = e"
proof -
  have "indexOf (map fst (phases cfg)) (last (map fst (phases cfg)))
          = int (length (map fst (phases cfg))) - 1"
    using assms(1,2) by (intro indexOf_last) simp_all
  then show ?thesis
    using assms(2,3) by (simp add: advancePhase_def Let_def last_map)
qed

lemma exhausted_last_phase_diverges:
  assumes "silenceCount e < 3"
    and "(if getContradictionLevel ct > 0.5 then getContradictionForQuestion ct else None) = None"
    and "distinct (map fst (phases cfg))" and "phases cfg \<noteq> []"
    and "currentPhase (updatePhase cfg e) = fst (last (phases cfg))"
    and "availableQuestions cw (updatePhase cfg e) (snd (last (phases cfg))) = []"
  shows "getNextQuestion cfg cw ct rnd now e = None"
proof -
  let ?e1 = "updatePhase cfg e"
  have "last (phases cfg) \<in> set (phases cfg)"
    using assms(4) by simp
  then have "(fst (last (phases cfg)), snd (last (phases cfg))) \<in> set (phases cfg)"
    by simp
  with assms(3) have look: "map_of (phases cfg) (currentPhase ?e1) = Some (snd (last (phases cfg)))"
    unfolding assms(5) by (rule map_of_is_SomeI)
  have adv: "advancePhase cfg ?e1 = ?e1"
    using assms(3,4,5) by (rule advancePhase_last)
  have "stuck cfg cw ct ?e1"
    using assms(1,2,6) look adv by (simp add: stuck_def updatePhase_fields updatePhase_idem)
  then have "getNextQuestion cfg cw ct rnd now ?e1 = None"
    by (rule stuck_diverges)
  then show ?thesis
    using assms(1,2,6) look adv
    by (subst getNextQuestion.simps) (simp add: Let_def updatePhase_fields)
qed

lemma asked_engine_stuck:
  "stuck one_phase_config ContextWindow_new ConsistencyTracker_new (recordSilence_q asked_engine)"
  by (simp add: stuck_def one_phase_config_def asked_engine_def QuestionEngine_new_def
      ConsistencyTracker_new_def getContradictionLevel_def updatePhase_def inWindow_def
      availableQuestions_def first_question_def advancePhase_def recordSilence_q_def)

text \<open>
  C2 fails on the code. With one phase of one question, the first call on a new
  engine returns that question; after a silence event the next call finds the
  phase exhausted, \<open>advancePhase\<close> stays at the last phase, and the call does
  not return.
\<close>

theorem getNextQuestion_diverges:
  "getNextQuestion one_phase_config ContextWindow_new ConsistencyTracker_new 0 0 QuestionEngine_new
     = Some (Shown \<lparr> sh_id = ConfigId ''q1'', sh_text = Some ''Who are you?'',
                     sh_critical = Some False, sh_silent = Some False, sh_revealLevel = 0 \<rparr>,
             asked_engine)
   \<and> getNextQuestion one_phase_config ContextWindow_new ConsistencyTracker_new 0 0
       (recordSilence_q asked_engine)
     = None"
proof
  show "getNextQuestion one_phase_config ContextWindow_new ConsistencyTracker_new 0 0
          QuestionEngine_new
     = Some (Shown \<lparr> sh_id = ConfigId ''q1'', sh_text = Some ''Who are you?'',
                     sh_critical = Some False, sh_silent = Some False, sh_revealLevel = 0 \<rparr>,
             asked_engine)"
    by (subst getNextQuestion.simps)
       (simp add: one_phase_config_def asked_engine_def QuestionEngine_new_def
          ConsistencyTracker_new_def getContradictionLevel_def updatePhase_def inWindow_def
          availableQuestions_def first_question_def selectQuestion_def processQuestion_def)
  show "getNextQuestion one_phase_config ContextWindow_new ConsistencyTracker_new 0 0
          (recordSilence_q asked_engine)
     = None"
    using asked_engine_stuck by (rule stuck_diverges)
qed


end
